theory Spec2Isabelle
  imports Main
begin

section \<open>Types (src/types/index.ts)\<close>

datatype UserRole = USER | ADMIN

datatype OAuthProvider = GOOGLE | GITHUB | FACEBOOK | LINKEDIN | TWITTER

text \<open>
  The payload the service signs. The discriminator \<open>type\<close> is a string in the token
  (\<^verbatim>\<open>'access' | 'refresh'\<close> for the pair, other values for tokens of other flows or
  of other origin), so it is kept as a string.
\<close>

record JWTPayload =
  userId :: string
  payload_email :: string
  payload_role :: UserRole
  payload_type :: string

section \<open>The jsonwebtoken library, symbolically\<close>

text \<open>
  A token is a string in the source. The model keeps the abstract syntax of that string: a
  well-formed JWT is the key its HMAC was computed with, the payload, and the two
  registered claims \<open>iat\<close> and \<open>exp\<close> the library adds (both in whole seconds); any
  other string is \<open>NotJwt\<close>. HS256 is deterministic, so signing the same payload with the
  same key in the same second gives the same string: equality of tokens in the model is
  equality of the strings.
\<close>

datatype token = Jwt string JWTPayload nat nat | NotJwt string

text \<open>\<^verbatim>\<open>Math.floor(Date.now() / 1000)\<close>: the clock is in milliseconds, claims in seconds.\<close>

definition clockTimestamp :: "nat \<Rightarrow> nat" where
  "clockTimestamp now = now div 1000"

text \<open>\<^verbatim>\<open>jwt.sign(payload, secret, { expiresIn })\<close> at clock \<open>now\<close>, \<open>expiresIn\<close> in seconds.\<close>

definition jwt_sign :: "JWTPayload \<Rightarrow> string \<Rightarrow> nat \<Rightarrow> nat \<Rightarrow> token" where
  "jwt_sign payload secret expiresIn now =
     Jwt secret payload (clockTimestamp now) (clockTimestamp now + expiresIn)"

datatype jwt_failure = JsonWebTokenError | TokenExpiredError

text \<open>
  \<^verbatim>\<open>jwt.verify(token, secret)\<close>: a string that is no JWT, or one signed with another key,
  raises JsonWebTokenError; then the expiry is checked (\<^verbatim>\<open>clockTimestamp >= exp\<close> raises
  TokenExpiredError); otherwise the payload is returned.
\<close>

fun jwt_verify :: "token \<Rightarrow> string \<Rightarrow> nat \<Rightarrow> jwt_failure + JWTPayload" where
  "jwt_verify (NotJwt s) secret now = Inl JsonWebTokenError"
| "jwt_verify (Jwt k payload i e) secret now =
     (if k \<noteq> secret then Inl JsonWebTokenError
      else if clockTimestamp now \<ge> e then Inl TokenExpiredError
      else Inr payload)"

section \<open>Errors (src/middlewares/errorHandler.ts)\<close>

text \<open>
  What a handler throws: an \<open>ApiError\<close> with its message and status code, or another
  JavaScript error with its \<open>name\<close>, its message and, for driver errors, its \<open>code\<close>.
\<close>

datatype js_error = ApiError string nat | OtherError string string "nat option"

definition BadRequestError :: "string \<Rightarrow> js_error" where
  "BadRequestError msg = ApiError msg 400"

definition UnauthorizedError :: "string \<Rightarrow> js_error" where
  "UnauthorizedError msg = ApiError msg 401"

definition ConflictError :: "string \<Rightarrow> js_error" where
  "ConflictError msg = ApiError msg 409"

text \<open>\<^verbatim>\<open>new Error(msg)\<close>: the name of a plain error is \<^verbatim>\<open>'Error'\<close>.\<close>

definition Error :: "string \<Rightarrow> js_error" where
  "Error msg = OtherError ''Error'' msg None"

fun error_message :: "js_error \<Rightarrow> string" where
  "error_message (ApiError msg c) = msg"
| "error_message (OtherError n msg c) = msg"

section \<open>Configuration (src/config/app.ts)\<close>

text \<open>
  The part of the configuration the token lifecycle reads. The two lifetimes are strings
  such as \<^verbatim>\<open>'15m'\<close> and \<^verbatim>\<open>'7d'\<close> in the environment; the model takes them in seconds,
  as the library reads them.
\<close>

record Config =
  nodeEnv :: string
  accessSecret :: string
  refreshSecret :: string
  accessExpiresIn :: nat
  refreshExpiresIn :: nat

definition isDevelopment :: "Config \<Rightarrow> bool" where
  "isDevelopment cfg = (nodeEnv cfg = ''development'')"

section \<open>The user document (src/models/user.model.ts)\<close>

text \<open>
  The fields of \<^verbatim>\<open>IUser\<close>; \<open>uid\<close> is \<^verbatim>\<open>_id\<close>. \<open>password\<close> holds the bcrypt hash once
  the document is saved, dates are clock values in milliseconds, and an absent optional
  field is \<open>None\<close>.
\<close>

record user =
  uid :: string
  email :: string
  password :: string
  firstName :: string
  lastName :: string
  role :: UserRole
  isEmailVerified :: bool
  emailVerificationToken :: "string option"
  emailVerificationExpires :: "nat option"
  passwordResetToken :: "string option"
  passwordResetExpires :: "nat option"
  refreshTokens :: "token list"
  oauthProvider :: "OAuthProvider option"
  oauthId :: "string option"
  avatar :: "string option"
  createdAt :: nat
  updatedAt :: nat

section \<open>JWT service (src/services/jwt.service.ts)\<close>

record TokenPair =
  accessToken :: token
  refreshToken :: token

definition generateAccessToken :: "Config \<Rightarrow> nat \<Rightarrow> user \<Rightarrow> token" where
  "generateAccessToken cfg now u =
     jwt_sign \<lparr>userId = uid u, payload_email = email u, payload_role = role u,
               payload_type = ''access''\<rparr>
       (accessSecret cfg) (accessExpiresIn cfg) now"

definition generateRefreshToken :: "Config \<Rightarrow> nat \<Rightarrow> user \<Rightarrow> token" where
  "generateRefreshToken cfg now u =
     jwt_sign \<lparr>userId = uid u, payload_email = email u, payload_role = role u,
               payload_type = ''refresh''\<rparr>
       (refreshSecret cfg) (refreshExpiresIn cfg) now"

definition generateTokenPair :: "Config \<Rightarrow> nat \<Rightarrow> user \<Rightarrow> TokenPair" where
  "generateTokenPair cfg now u =
     \<lparr>accessToken = generateAccessToken cfg now u,
      refreshToken = generateRefreshToken cfg now u\<rparr>"

text \<open>
  Both verifiers wrap the library call and the check of the discriminator in one
  \<^verbatim>\<open>try\<close>; whatever is raised inside, the \<^verbatim>\<open>catch\<close> throws a plain \<^verbatim>\<open>Error\<close> with
  one fixed message.
\<close>

definition verifyAccessToken :: "Config \<Rightarrow> nat \<Rightarrow> token \<Rightarrow> js_error + JWTPayload" where
  "verifyAccessToken cfg now tok =
     (case jwt_verify tok (accessSecret cfg) now of
        Inl f \<Rightarrow> Inl (Error ''Invalid access token'')
      | Inr decoded \<Rightarrow>
          if payload_type decoded \<noteq> ''access'' then Inl (Error ''Invalid access token'')
          else Inr decoded)"

definition verifyRefreshToken :: "Config \<Rightarrow> nat \<Rightarrow> token \<Rightarrow> js_error + JWTPayload" where
  "verifyRefreshToken cfg now tok =
     (case jwt_verify tok (refreshSecret cfg) now of
        Inl f \<Rightarrow> Inl (Error ''Invalid refresh token'')
      | Inr decoded \<Rightarrow>
          if payload_type decoded \<noteq> ''refresh'' then Inl (Error ''Invalid refresh token'')
          else Inr decoded)"

text \<open>
  \<^verbatim>\<open>extractTokenFromHeader\<close> reads an Authorization header. The model keeps the header's
  abstract syntax: \<open>Bearer t\<close> is the string \<^verbatim>\<open>'Bearer '\<close> followed by the token
  string of \<open>t\<close>, \<open>OtherHeader s\<close> a string \<open>s\<close> that does not start with \<^verbatim>\<open>'Bearer '\<close>.
\<close>

datatype auth_header = Bearer token | OtherHeader string

text \<open>JavaScript truthiness of a token string and of a header string: only \<^verbatim>\<open>''\<close> is falsy.\<close>

fun truthy :: "token \<Rightarrow> bool" where
  "truthy (NotJwt s) = (s \<noteq> [])"
| "truthy (Jwt k payload i e) = True"

fun header_truthy :: "auth_header \<Rightarrow> bool" where
  "header_truthy (OtherHeader s) = (s \<noteq> [])"
| "header_truthy (Bearer t) = True"

fun extractTokenFromHeader :: "auth_header \<Rightarrow> token option" where
  "extractTokenFromHeader (OtherHeader s) = None"
| "extractTokenFromHeader (Bearer t) = Some t"

section \<open>The store and the user model (src/models/user.model.ts)\<close>

text \<open>
  The collection of user documents, in storage order; \<^verbatim>\<open>findOne\<close> returns the first
  document that matches. Documents are identified by \<open>uid\<close> (\<^verbatim>\<open>_id\<close>).
\<close>

type_synonym db = "user list"

text \<open>
  The library primitives the model and the controller call: SHA-256 with hex output, and
  bcrypt's \<^verbatim>\<open>hash(password, salt)\<close> and \<^verbatim>\<open>compare(candidate, hash)\<close>. They are
  parameters: no property of them is assumed.
\<close>

record Crypto =
  sha256 :: "string \<Rightarrow> string"
  bcrypt_hash :: "string \<Rightarrow> string \<Rightarrow> string"
  bcrypt_compare :: "string \<Rightarrow> string \<Rightarrow> bool"

text \<open>\<^verbatim>\<open>String.prototype.toLowerCase\<close>, on the ASCII letters.\<close>

definition toLowerCase :: "string \<Rightarrow> string" where
  "toLowerCase str =
     map (\<lambda>c. case map_of (zip ''ABCDEFGHIJKLMNOPQRSTUVWXYZ'' ''abcdefghijklmnopqrstuvwxyz'') c of
                None \<Rightarrow> c
              | Some l \<Rightarrow> l) str"

definition findById :: "db \<Rightarrow> string \<Rightarrow> user option" where
  "findById s i = find (\<lambda>u. uid u = i) s"

definition findByEmail :: "db \<Rightarrow> string \<Rightarrow> user option" where
  "findByEmail s e = find (\<lambda>u. email u = toLowerCase e) s"

text \<open>The query \<^verbatim>\<open>{ field: hashedToken, expires: { $gt: Date.now() } }\<close> on one document.\<close>

definition verificationTokenMatches :: "Crypto \<Rightarrow> nat \<Rightarrow> string \<Rightarrow> user \<Rightarrow> bool" where
  "verificationTokenMatches C now tok u =
     (emailVerificationToken u = Some (sha256 C tok) \<and>
      (case emailVerificationExpires u of None \<Rightarrow> False | Some e \<Rightarrow> e > now))"

definition passwordResetTokenMatches :: "Crypto \<Rightarrow> nat \<Rightarrow> string \<Rightarrow> user \<Rightarrow> bool" where
  "passwordResetTokenMatches C now tok u =
     (passwordResetToken u = Some (sha256 C tok) \<and>
      (case passwordResetExpires u of None \<Rightarrow> False | Some e \<Rightarrow> e > now))"

definition findByVerificationToken :: "Crypto \<Rightarrow> db \<Rightarrow> nat \<Rightarrow> string \<Rightarrow> user option" where
  "findByVerificationToken C s now tok = find (verificationTokenMatches C now tok) s"

definition findByPasswordResetToken :: "Crypto \<Rightarrow> db \<Rightarrow> nat \<Rightarrow> string \<Rightarrow> user option" where
  "findByPasswordResetToken C s now tok = find (passwordResetTokenMatches C now tok) s"

text \<open>
  A field of a JSON request body that no validator has forced to be a string: a string, a
  number or a boolean (arrays, objects and \<^verbatim>\<open>null\<close> behave as the last two do below).
\<close>

datatype json_value = JString string | JNumber int | JBool bool

text \<open>
  bcrypt's \<^verbatim>\<open>compare\<close> rejects (\<^verbatim>\<open>Illegal arguments\<close>) when the candidate or the hash is
  not a string, and resolves to a boolean otherwise; the stored hash is a string. The
  method wraps the call in a \<^verbatim>\<open>try\<close> whose \<^verbatim>\<open>catch\<close> throws
  \<^verbatim>\<open>Error('Password comparison failed')\<close>.
\<close>

definition comparePassword :: "Crypto \<Rightarrow> json_value \<Rightarrow> user \<Rightarrow> js_error + bool" where
  "comparePassword C candidatePassword u =
     (case candidatePassword of
        JString p \<Rightarrow> Inr (bcrypt_compare C p (password u))
      | JNumber n \<Rightarrow> Inl (Error ''Password comparison failed'')
      | JBool b \<Rightarrow> Inl (Error ''Password comparison failed''))"

text \<open>
  The two generators draw 32 random bytes; the hex string of the draw is the argument
  \<open>rnd\<close>. They return the plaintext and leave its hash and the expiry on the document.
\<close>

definition generateEmailVerificationToken :: "Crypto \<Rightarrow> nat \<Rightarrow> string \<Rightarrow> user \<Rightarrow> string \<times> user" where
  "generateEmailVerificationToken C now rnd u =
     (rnd, u\<lparr>emailVerificationToken := Some (sha256 C rnd),
              emailVerificationExpires := Some (now + 24 * 60 * 60 * 1000)\<rparr>)"

definition generatePasswordResetToken :: "Crypto \<Rightarrow> nat \<Rightarrow> string \<Rightarrow> user \<Rightarrow> string \<times> user" where
  "generatePasswordResetToken C now rnd u =
     (rnd, u\<lparr>passwordResetToken := Some (sha256 C rnd),
              passwordResetExpires := Some (now + 10 * 60 * 1000)\<rparr>)"

definition clearTokens :: "user \<Rightarrow> user" where
  "clearTokens u =
     u\<lparr>refreshTokens := [],
       emailVerificationToken := None,
       emailVerificationExpires := None,
       passwordResetToken := None,
       passwordResetExpires := None\<rparr>"

text \<open>
  \<^verbatim>\<open>user.save()\<close> of a loaded document whose password was not assigned: the pre-save
  hook returns at once, the stored document with the same \<^verbatim>\<open>_id\<close> is replaced and the
  store stamps \<open>updatedAt\<close>. The handlers save only documents they have just loaded,
  and stored documents have passed the schema's validators when they were written, so
  this save does not fail.
\<close>

definition save :: "db \<Rightarrow> nat \<Rightarrow> user \<Rightarrow> db" where
  "save s now u = map (\<lambda>v. if uid v = uid u then u\<lparr>updatedAt := now\<rparr> else v) s"

text \<open>
  \<^verbatim>\<open>user.save()\<close> after \<^verbatim>\<open>user.password = ...\<close>: the schema's \<^verbatim>\<open>minlength: 8\<close> is
  checked on the assigned plaintext (a shorter one rejects with a ValidationError and
  nothing is written), then the pre-save hook replaces it by its bcrypt hash under a
  fresh salt (the argument \<open>salt\<close>). The saved document is returned with the store.
\<close>

definition save_password :: "Crypto \<Rightarrow> string \<Rightarrow> db \<Rightarrow> nat \<Rightarrow> user \<Rightarrow> js_error + (db \<times> user)" where
  "save_password C salt s now u =
     (if length (password u) < 8
      then Inl (OtherError ''ValidationError''
                  ''User validation failed: password: Password must be at least 8 characters long'' None)
      else let u' = u\<lparr>password := bcrypt_hash C (password u) salt\<rparr>
           in Inr (save s now u', u'\<lparr>updatedAt := now\<rparr>))"

section \<open>Responses\<close>

record PublicUser =
  pub_id :: string
  pub_email :: string
  pub_firstName :: string
  pub_lastName :: string
  pub_role :: UserRole
  pub_isEmailVerified :: bool
  pub_avatar :: "string option"

datatype response_data = NoData | TokenData TokenPair | AuthData PublicUser TokenPair

datatype cookie_effect = NoCookie | SetRefreshCookie token | ClearRefreshCookie

text \<open>
  What a handler sends: the status, the envelope \<^verbatim>\<open>{success, message, error?, data?}\<close>
  and what it does to the \<^verbatim>\<open>refreshToken\<close> cookie.
\<close>

record response =
  status :: nat
  success :: bool
  message :: string
  error :: "string option"
  data :: response_data
  cookie :: cookie_effect

definition ok_response :: "nat \<Rightarrow> string \<Rightarrow> response_data \<Rightarrow> cookie_effect \<Rightarrow> response" where
  "ok_response code msg d c =
     \<lparr>status = code, success = True, message = msg, error = None, data = d, cookie = c\<rparr>"

text \<open>
  The global error handler. \<open>details\<close> is computed in the source and never sent, and the
  stack trace added in development is not part of the model.
\<close>

definition errorHandler :: "Config \<Rightarrow> js_error \<Rightarrow> response" where
  "errorHandler cfg err =
     (let isDevelopement = isDevelopment cfg;
          (statusCode, msg) =
            (case err of
               ApiError m c \<Rightarrow> (c, m)
             | OtherError n m code \<Rightarrow>
                 if n = ''ValidationError'' then (400, ''Validation failed'')
                 else if n = ''MongoError'' \<and> code = Some 11000 then (409, ''Duplicate field value'')
                 else if n = ''JsonWebTokenError'' then (401, ''Invalid token'')
                 else if n = ''TokenExpiredError'' then (401, ''Token expired'')
                 else (500, if isDevelopement then m else ''Internal Server Error''))
      in \<lparr>status = statusCode, success = False, message = msg,
          error = Some (if isDevelopement then error_message err else msg),
          data = NoData, cookie = NoCookie\<rparr>)"

text \<open>
  \<^verbatim>\<open>app.ts\<close> does not install \<open>errorHandler\<close> (the call is commented out), so a thrown
  error reaches the framework's final handler, which takes the status from the error's
  \<^verbatim>\<open>statusCode\<close> when that is a 4xx or 5xx code and answers 500 otherwise.
\<close>

fun express_default_status :: "js_error \<Rightarrow> nat" where
  "express_default_status (ApiError m c) = (if 400 \<le> c \<and> c < 600 then c else 500)"
| "express_default_status (OtherError n m code) = 500"

section \<open>Authentication middleware (src/middlewares/auth.middleware.ts)\<close>

definition unauthorized_response :: "string \<Rightarrow> string \<Rightarrow> response" where
  "unauthorized_response msg err =
     \<lparr>status = 401, success = False, message = msg, error = Some err,
      data = NoData, cookie = NoCookie\<rparr>"

text \<open>
  \<open>authenticate\<close> answers 401 itself (\<open>Inl\<close>) or attaches the loaded user to the request
  and calls the next handler (\<open>Inr\<close>). Its last check, \<^verbatim>\<open>!user._id\<close>, is never true of a
  loaded document and has no branch here.
\<close>

definition authenticate :: "Config \<Rightarrow> db \<Rightarrow> nat \<Rightarrow> auth_header option \<Rightarrow> response + user" where
  "authenticate cfg s now authorization =
     (case authorization of
        None \<Rightarrow> Inl (unauthorized_response ''Access token required'' ''No authorization header provided'')
      | Some authHeader \<Rightarrow>
          if \<not> header_truthy authHeader
          then Inl (unauthorized_response ''Access token required'' ''No authorization header provided'')
          else
            (case extractTokenFromHeader authHeader of
               None \<Rightarrow> Inl (unauthorized_response ''Invalid authorization header format''
                              ''Token must be provided in format: Bearer <token>'')
             | Some tok \<Rightarrow>
                 if \<not> truthy tok
                 then Inl (unauthorized_response ''Invalid authorization header format''
                             ''Token must be provided in format: Bearer <token>'')
                 else
                   (case verifyAccessToken cfg now tok of
                      Inl e \<Rightarrow> Inl (unauthorized_response ''Authentication failed''
                                     ''Invalid or expired access token'')
                    | Inr decoded \<Rightarrow>
                        (case findById s (userId decoded) of
                           None \<Rightarrow> Inl (unauthorized_response ''User not found''
                                          ''Invalid token - user does not exist'')
                         | Some u \<Rightarrow> Inr u))))"

section \<open>Controller (src/controllerd/auth.controller.ts)\<close>

text \<open>
  A handler either throws (\<open>Inl\<close>) or sends a response (\<open>Inr\<close>); the store it leaves
  behind is returned in both cases, since a handler can write before it throws. \<open>now\<close>
  is the clock (\<^verbatim>\<open>Date.now()\<close>, milliseconds) during the request. The handlers of the
  token lifecycle are modelled: login, logout, refresh, email verification, forgot and
  reset password.
\<close>

type_synonym outcome = "(js_error + response) \<times> db"

definition publicUser :: "user \<Rightarrow> PublicUser" where
  "publicUser u =
     \<lparr>pub_id = uid u, pub_email = email u, pub_firstName = firstName u,
      pub_lastName = lastName u, pub_role = role u,
      pub_isEmailVerified = isEmailVerified u, pub_avatar = avatar u\<rparr>"

text \<open>
  \<open>email_in\<close> and \<open>password_in\<close> are the two body fields. The route's validators make
  the email a string (\<^verbatim>\<open>isEmail\<close>) and ask of the password only that it is not empty
  (\<^verbatim>\<open>notEmpty\<close>), so the password can be any JSON value. An error thrown by
  \<open>comparePassword\<close> leaves the handler as it is.
\<close>

definition login :: "Crypto \<Rightarrow> Config \<Rightarrow> db \<Rightarrow> nat \<Rightarrow> string \<Rightarrow> json_value \<Rightarrow> outcome" where
  "login C cfg s now email_in password_in =
     (case findByEmail s email_in of
        None \<Rightarrow> (Inl (UnauthorizedError ''Invalid email or password''), s)
      | Some u \<Rightarrow>
          (case comparePassword C password_in u of
             Inl e \<Rightarrow> (Inl e, s)
           | Inr isPasswordValid \<Rightarrow>
               if \<not> isPasswordValid
               then (Inl (UnauthorizedError ''Invalid email or password''), s)
               else
                 let tokens = generateTokenPair cfg now u;
                     u' = u\<lparr>refreshTokens := refreshTokens u @ [refreshToken tokens]\<rparr>
                 in (Inr (ok_response 200 ''Login successful''
                            (AuthData (publicUser u') tokens)
                            (SetRefreshCookie (refreshToken tokens))),
                     save s now u')))"

text \<open>The handler proper: \<open>req_user\<close> is what \<open>authenticate\<close> attached to the request.\<close>

definition logout :: "db \<Rightarrow> nat \<Rightarrow> user option \<Rightarrow> outcome" where
  "logout s now req_user =
     (case req_user of
        None \<Rightarrow> (Inl (UnauthorizedError ''User not authenticated''), s)
      | Some u \<Rightarrow>
          (Inr (ok_response 200 ''Logout successful'' NoData ClearRefreshCookie),
           save s now (clearTokens u)))"

text \<open>The route \<^verbatim>\<open>POST /logout\<close>: \<open>authenticate\<close>, then the handler.\<close>

definition logout_route :: "Config \<Rightarrow> db \<Rightarrow> nat \<Rightarrow> auth_header option \<Rightarrow> outcome" where
  "logout_route cfg s now authorization =
     (case authenticate cfg s now authorization of
        Inl resp \<Rightarrow> (Inr resp, s)
      | Inr u \<Rightarrow> logout s now (Some u))"

text \<open>
  \<^verbatim>\<open>req.cookies['refreshToken'] || req.headers['x-refresh-token']\<close>: the cookie when it
  is a non-empty string, the header otherwise. The handler \<^verbatim>\<open>refreshToken\<close> is named
  \<open>refreshToken_handler\<close> here, since \<open>refreshToken\<close> is the field of \<open>TokenPair\<close>.
\<close>

definition presentedRefreshToken :: "token option \<Rightarrow> token option \<Rightarrow> token option" where
  "presentedRefreshToken cookie_in header_in =
     (case cookie_in of
        None \<Rightarrow> header_in
      | Some t \<Rightarrow> if truthy t then Some t else header_in)"

definition refreshToken_handler ::
  "Config \<Rightarrow> db \<Rightarrow> nat \<Rightarrow> token option \<Rightarrow> token option \<Rightarrow> outcome" where
  "refreshToken_handler cfg s now cookie_in header_in =
     (case presentedRefreshToken cookie_in header_in of
        None \<Rightarrow> (Inl (UnauthorizedError ''Refresh token required''), s)
      | Some t \<Rightarrow>
          if \<not> truthy t then (Inl (UnauthorizedError ''Refresh token required''), s)
          else
            (case verifyRefreshToken cfg now t of
               Inl e \<Rightarrow> (Inl e, s)
             | Inr decoded \<Rightarrow>
                 (case findById s (userId decoded) of
                    None \<Rightarrow> (Inl (UnauthorizedError ''User not found''), s)
                  | Some u \<Rightarrow>
                      if t \<notin> set (refreshTokens u)
                      then (Inl (UnauthorizedError ''Invalid refresh token''), s)
                      else
                        let newTokens = generateTokenPair cfg now u;
                            u' = u\<lparr>refreshTokens :=
                                     filter (\<lambda>x. x \<noteq> t) (refreshTokens u) @ [refreshToken newTokens]\<rparr>
                        in (Inr (ok_response 200 ''Token refreshed successfully''
                                   (TokenData newTokens)
                                   (SetRefreshCookie (refreshToken newTokens))),
                            save s now u'))))"

text \<open>
  \<open>token_in\<close> is \<^verbatim>\<open>req.body.token\<close>: absent, or a string. The welcome mail is sent after
  the save and its failure is caught and logged, so it does not show in the outcome.
\<close>

definition verifyEmail :: "Crypto \<Rightarrow> db \<Rightarrow> nat \<Rightarrow> string option \<Rightarrow> outcome" where
  "verifyEmail C s now token_in =
     (case token_in of
        None \<Rightarrow> (Inl (BadRequestError ''Verification token is required''), s)
      | Some tok \<Rightarrow>
          if tok = [] then (Inl (BadRequestError ''Verification token is required''), s)
          else
            (case findByVerificationToken C s now tok of
               None \<Rightarrow> (Inl (BadRequestError ''Invalid or expired verification token''), s)
             | Some u \<Rightarrow>
                 (Inr (ok_response 200 ''Email verified successfully'' NoData NoCookie),
                  save s now (u\<lparr>isEmailVerified := True,
                                 emailVerificationToken := None,
                                 emailVerificationExpires := None\<rparr>))))"

text \<open>
  \<open>rnd\<close> is the random draw of the token generator and \<open>mail_ok\<close> says whether the mail
  transport delivered the reset mail. The token is saved before the mail is sent.
\<close>

definition forgotPassword :: "Crypto \<Rightarrow> db \<Rightarrow> nat \<Rightarrow> string \<Rightarrow> string \<Rightarrow> bool \<Rightarrow> outcome" where
  "forgotPassword C s now email_in rnd mail_ok =
     (case findByEmail s email_in of
        None \<Rightarrow>
          (Inr (ok_response 200
                  ''If an account with that email exists, a password reset link has been sent''
                  NoData NoCookie), s)
      | Some u \<Rightarrow>
          let (resetToken, u') = generatePasswordResetToken C now rnd u;
              s' = save s now u'
          in if \<not> mail_ok then (Inl (Error ''Failed to send password reset email''), s')
             else
               (Inr (ok_response 200
                       ''If an account with that email exists, a password reset link has been sent''
                       NoData NoCookie), s'))"

text \<open>
  \<open>token_in\<close> and \<open>password_in\<close> are the two body fields, \<open>salt\<close> the salt bcrypt draws.
  The document is saved twice: with the new password and the cleared reset token, then
  with the emptied list of refresh tokens.
\<close>

definition resetPassword ::
  "Crypto \<Rightarrow> db \<Rightarrow> nat \<Rightarrow> string option \<Rightarrow> string option \<Rightarrow> string \<Rightarrow> outcome" where
  "resetPassword C s now token_in password_in salt =
     (case (token_in, password_in) of
        (Some tok, Some pw) \<Rightarrow>
          if tok = [] \<or> pw = []
          then (Inl (BadRequestError ''Token and new password are required''), s)
          else
            (case findByPasswordResetToken C s now tok of
               None \<Rightarrow> (Inl (BadRequestError ''Invalid or expired reset token''), s)
             | Some u \<Rightarrow>
                 (case save_password C salt s now
                         (u\<lparr>password := pw,
                            passwordResetToken := None,
                            passwordResetExpires := None\<rparr>) of
                    Inl e \<Rightarrow> (Inl e, s)
                  | Inr (s1, u1) \<Rightarrow>
                      (Inr (ok_response 200
                              ''Password reset successfully. Please log in with your new password.''
                              NoData NoCookie),
                       save s1 now (u1\<lparr>refreshTokens := []\<rparr>))))
      | _ \<Rightarrow> (Inl (BadRequestError ''Token and new password are required''), s))"

section \<open>Sample data\<close>

text \<open>
  A configuration, an instance of the library primitives and a small store, on which the
  handlers are run in the examples below. The sample hash functions only tag their
  argument; no theorem about the handlers depends on them.
\<close>

definition demo_config :: Config where
  "demo_config = \<lparr>nodeEnv = ''production'', accessSecret = ''access-secret'',
     refreshSecret = ''refresh-secret'', accessExpiresIn = 900, refreshExpiresIn = 604800\<rparr>"

definition demo_crypto :: Crypto where
  "demo_crypto = \<lparr>sha256 = (\<lambda>str. ''sha256:'' @ str),
     bcrypt_hash = (\<lambda>pw salt. salt @ pw),
     bcrypt_compare = (\<lambda>candidate h. drop 2 h = candidate)\<rparr>"

definition alice :: user where
  "alice = \<lparr>uid = ''u1'', email = ''alice@example.com'', password = ''s1Passw0rd!'',
     firstName = ''Alice'', lastName = ''Liddell'', role = USER, isEmailVerified = False,
     emailVerificationToken = None, emailVerificationExpires = None,
     passwordResetToken = None, passwordResetExpires = None, refreshTokens = [],
     oauthProvider = None, oauthId = None, avatar = None, createdAt = 1000, updatedAt = 1000\<rparr>"

definition alice_token :: token where
  "alice_token = generateRefreshToken demo_config 5000 alice"

definition alice_session :: "nat \<Rightarrow> user" where
  "alice_session k = alice\<lparr>refreshTokens := [alice_token], updatedAt := k\<rparr>"

definition bob0 :: user where
  "bob0 = \<lparr>uid = ''u2'', email = ''bob@example.com'', password = ''s2hunter2hunter'',
     firstName = ''Bob'', lastName = ''Builder'', role = USER, isEmailVerified = False,
     emailVerificationToken = None, emailVerificationExpires = None,
     passwordResetToken = None, passwordResetExpires = None, refreshTokens = [],
     oauthProvider = None, oauthId = None, avatar = None, createdAt = 2000, updatedAt = 2000\<rparr>"

definition bob_token :: token where
  "bob_token = generateRefreshToken demo_config 3000 bob0"

definition bob_token2 :: token where
  "bob_token2 = generateRefreshToken demo_config 4000 bob0"

definition bob_access :: token where
  "bob_access = generateAccessToken demo_config 6000 bob0"

definition bob :: user where
  "bob = bob0\<lparr>emailVerificationToken := Some ''sha256:v3r1fy'',
              emailVerificationExpires := Some 86403000,
              passwordResetToken := Some ''sha256:r3s3t'',
              passwordResetExpires := Some 603000,
              refreshTokens := [bob_token],
              updatedAt := 3000\<rparr>"

text \<open>Bob's document after each of the flows below, as the store holds it.\<close>

definition bob_verified :: user where
  "bob_verified = bob\<lparr>isEmailVerified := True, emailVerificationToken := None,
                       emailVerificationExpires := None, updatedAt := 6000\<rparr>"

definition bob_reset :: user where
  "bob_reset = bob\<lparr>password := ''s9N3wPassw0rd!'', passwordResetToken := None,
                    passwordResetExpires := None, refreshTokens := [], updatedAt := 7000\<rparr>"

definition bob_logged_out :: user where
  "bob_logged_out = bob\<lparr>refreshTokens := [], emailVerificationToken := None,
                         emailVerificationExpires := None, passwordResetToken := None,
                         passwordResetExpires := None, updatedAt := 6500\<rparr>"

definition bob_two_sessions :: user where
  "bob_two_sessions = bob\<lparr>refreshTokens := [bob_token, bob_token2, bob_token]\<rparr>"

definition bob_rotated :: user where
  "bob_rotated = bob\<lparr>refreshTokens := [bob_token2, generateRefreshToken demo_config 6900 bob0],
                      updatedAt := 6900\<rparr>"

text \<open>The response \<open>forgotPassword\<close> sends on both of its successful paths.\<close>

definition generic_reset_response :: response where
  "generic_reset_response =
     ok_response 200 ''If an account with that email exists, a password reset link has been sent''
       NoData NoCookie"

section \<open>The store\<close>

lemma findById_save:
  "findById (save s now u) i =
     map_option (\<lambda>v. if uid v = uid u then u\<lparr>updatedAt := now\<rparr> else v) (findById s i)"
  by (induction s) (auto simp: findById_def save_def)

lemma findById_Some_uid: "findById s i = Some u \<Longrightarrow> uid u = i \<and> u \<in> set s"
  by (auto simp: findById_def find_Some_iff)

lemma findById_save_same:
  "findById s (uid u) = Some w \<Longrightarrow> findById (save s now u) (uid u) = Some (u\<lparr>updatedAt := now\<rparr>)"
  using findById_Some_uid [of s "uid u" w] by (simp add: findById_save)

lemma in_set_save:
  "v \<in> set (save s now u) \<Longrightarrow>
     (v = u\<lparr>updatedAt := now\<rparr> \<and> (\<exists>w \<in> set s. uid w = uid u)) \<or> (uid v \<noteq> uid u \<and> v \<in> set s)"
  by (auto simp: save_def split: if_splits)

section \<open>Lookups by one-time token\<close>

lemma findByVerificationToken_Some:
  "findByVerificationToken C s now tok = Some u \<Longrightarrow>
     u \<in> set s \<and> emailVerificationToken u = Some (sha256 C tok)
     \<and> (\<exists>e. emailVerificationExpires u = Some e \<and> now < e)"
  by (auto simp: findByVerificationToken_def verificationTokenMatches_def find_Some_iff
      split: option.splits)

lemma findByPasswordResetToken_Some:
  "findByPasswordResetToken C s now tok = Some u \<Longrightarrow>
     u \<in> set s \<and> passwordResetToken u = Some (sha256 C tok)
     \<and> (\<exists>e. passwordResetExpires u = Some e \<and> now < e)"
  by (auto simp: findByPasswordResetToken_def passwordResetTokenMatches_def find_Some_iff
      split: option.splits)

lemma findByVerificationToken_None:
  "(\<forall>u \<in> set s. emailVerificationToken u \<noteq> Some (sha256 C tok) \<or>
      (\<forall>e. emailVerificationExpires u = Some e \<longrightarrow> e \<le> now))
   \<Longrightarrow> findByVerificationToken C s now tok = None"
  by (auto simp: findByVerificationToken_def verificationTokenMatches_def find_None_iff
      split: option.splits)

lemma findByPasswordResetToken_None:
  "(\<forall>u \<in> set s. passwordResetToken u \<noteq> Some (sha256 C tok) \<or>
      (\<forall>e. passwordResetExpires u = Some e \<longrightarrow> e \<le> now))
   \<Longrightarrow> findByPasswordResetToken C s now tok = None"
  by (auto simp: findByPasswordResetToken_def passwordResetTokenMatches_def find_None_iff
      split: option.splits)

text \<open>
  Once a document's stored hash is cleared and the document saved, no lookup returns a
  document with its \<open>uid\<close>, whatever the plaintext and the clock.
\<close>

lemma verification_cleared_no_match:
  assumes "emailVerificationToken u' = None"
    and "findByVerificationToken C (save s now u') now' tok = Some v"
  shows "uid v \<noteq> uid u'"
proof
  assume eq: "uid v = uid u'"
  from assms(2) have v: "v \<in> set (save s now u')" "emailVerificationToken v = Some (sha256 C tok)"
    by (auto dest: findByVerificationToken_Some)
  from in_set_save [OF v(1)] eq have "v = u'\<lparr>updatedAt := now\<rparr>" by blast
  with assms(1) v(2) show False by simp
qed

lemma reset_cleared_no_match:
  assumes "passwordResetToken u' = None"
    and "findByPasswordResetToken C (save s now u') now' tok = Some v"
  shows "uid v \<noteq> uid u'"
proof
  assume eq: "uid v = uid u'"
  from assms(2) have v: "v \<in> set (save s now u')" "passwordResetToken v = Some (sha256 C tok)"
    by (auto dest: findByPasswordResetToken_Some)
  from in_set_save [OF v(1)] eq have "v = u'\<lparr>updatedAt := now\<rparr>" by blast
  with assms(1) v(2) show False by simp
qed

lemma verification_cleared_none:
  assumes "emailVerificationToken u' = None"
    and "\<forall>v \<in> set s. emailVerificationToken v = Some (sha256 C tok) \<longrightarrow> uid v = uid u'"
  shows "findByVerificationToken C (save s now u') now' tok = None"
proof (cases "findByVerificationToken C (save s now u') now' tok")
  case None
  then show ?thesis .
next
  case (Some v)
  then have v: "v \<in> set (save s now u')" "emailVerificationToken v = Some (sha256 C tok)"
    by (auto dest: findByVerificationToken_Some)
  from verification_cleared_no_match [OF assms(1) Some] have "uid v \<noteq> uid u'" .
  with in_set_save [OF v(1)] have "v \<in> set s" by auto
  with assms(2) v(2) \<open>uid v \<noteq> uid u'\<close> show ?thesis by blast
qed

lemma reset_cleared_none:
  assumes "passwordResetToken u' = None"
    and "\<forall>v \<in> set s. passwordResetToken v = Some (sha256 C tok) \<longrightarrow> uid v = uid u'"
  shows "findByPasswordResetToken C (save s now u') now' tok = None"
proof (cases "findByPasswordResetToken C (save s now u') now' tok")
  case None
  then show ?thesis .
next
  case (Some v)
  then have v: "v \<in> set (save s now u')" "passwordResetToken v = Some (sha256 C tok)"
    by (auto dest: findByPasswordResetToken_Some)
  from reset_cleared_no_match [OF assms(1) Some] have "uid v \<noteq> uid u'" .
  with in_set_save [OF v(1)] have "v \<in> set s" by auto
  with assms(2) v(2) \<open>uid v \<noteq> uid u'\<close> show ?thesis by blast
qed

section \<open>The verifiers and the handlers, case by case\<close>

lemma verifyRefreshToken_Inr:
  "verifyRefreshToken cfg now t = Inr d \<Longrightarrow>
     \<exists>i e. t = Jwt (refreshSecret cfg) d i e \<and> clockTimestamp now < e \<and> payload_type d = ''refresh''"
  by (cases t) (auto simp: verifyRefreshToken_def split: if_splits)

lemma verifyRefreshToken_Inl:
  "verifyRefreshToken cfg now t = Inl e \<Longrightarrow> e = Error ''Invalid refresh token''"
  by (auto simp: verifyRefreshToken_def split: sum.splits if_splits)

lemma verifyAccessToken_Inr:
  "verifyAccessToken cfg now t = Inr d \<Longrightarrow>
     \<exists>i e. t = Jwt (accessSecret cfg) d i e \<and> clockTimestamp now < e \<and> payload_type d = ''access''"
  by (cases t) (auto simp: verifyAccessToken_def split: if_splits)

lemma authenticate_Inr:
  "authenticate cfg s now authorization = Inr u \<Longrightarrow>
     \<exists>tok d. authorization = Some (Bearer tok) \<and> verifyAccessToken cfg now tok = Inr d
       \<and> findById s (userId d) = Some u"
  by (cases authorization; cases "the authorization")
     (auto simp: authenticate_def split: option.splits sum.splits if_splits)

lemma refreshToken_handler_success:
  assumes "refreshToken_handler cfg s now cookie_in header_in = (Inr r, s')"
  shows "\<exists>t d u. presentedRefreshToken cookie_in header_in = Some t
           \<and> verifyRefreshToken cfg now t = Inr d
           \<and> findById s (userId d) = Some u
           \<and> t \<in> set (refreshTokens u)
           \<and> s' = save s now (u\<lparr>refreshTokens :=
                      filter (\<lambda>x. x \<noteq> t) (refreshTokens u) @ [refreshToken (generateTokenPair cfg now u)]\<rparr>)
           \<and> r = ok_response 200 ''Token refreshed successfully''
                   (TokenData (generateTokenPair cfg now u))
                   (SetRefreshCookie (refreshToken (generateTokenPair cfg now u)))"
  using assms
  by (auto simp: refreshToken_handler_def Let_def split: option.splits sum.splits if_splits)

lemma refreshToken_handler_member:
  assumes "presentedRefreshToken cookie_in header_in = Some t"
    and "verifyRefreshToken cfg now t = Inr d"
    and "findById s (userId d) = Some u"
    and "t \<in> set (refreshTokens u)"
  shows "refreshToken_handler cfg s now cookie_in header_in =
           (Inr (ok_response 200 ''Token refreshed successfully''
                   (TokenData (generateTokenPair cfg now u))
                   (SetRefreshCookie (refreshToken (generateTokenPair cfg now u)))),
            save s now (u\<lparr>refreshTokens :=
               filter (\<lambda>x. x \<noteq> t) (refreshTokens u) @ [refreshToken (generateTokenPair cfg now u)]\<rparr>))"
proof -
  from assms(2) have "truthy t" by (auto dest: verifyRefreshToken_Inr)
  with assms show ?thesis by (simp add: refreshToken_handler_def Let_def)
qed

lemma refreshToken_handler_not_member:
  assumes "presentedRefreshToken cookie_in header_in = Some t"
    and "verifyRefreshToken cfg now t = Inr d"
    and "findById s (userId d) = Some u"
    and "t \<notin> set (refreshTokens u)"
  shows "refreshToken_handler cfg s now cookie_in header_in =
           (Inl (UnauthorizedError ''Invalid refresh token''), s)"
proof -
  from assms(2) have "truthy t" by (auto dest: verifyRefreshToken_Inr)
  with assms show ?thesis by (simp add: refreshToken_handler_def)
qed

lemma refreshToken_handler_fails_unverified:
  assumes "presentedRefreshToken cookie_in header_in = Some t"
    and "verifyRefreshToken cfg now t = Inl e"
  shows "\<exists>e'. refreshToken_handler cfg s now cookie_in header_in = (Inl e', s)"
  using assms by (simp add: refreshToken_handler_def)

lemma verifyEmail_success:
  assumes "verifyEmail C s now token_in = (Inr r, s')"
  shows "\<exists>tok u. token_in = Some tok \<and> tok \<noteq> []
           \<and> findByVerificationToken C s now tok = Some u
           \<and> s' = save s now (u\<lparr>isEmailVerified := True, emailVerificationToken := None,
                                  emailVerificationExpires := None\<rparr>)"
  using assms by (auto simp: verifyEmail_def split: option.splits if_splits)

lemma resetPassword_success:
  assumes "resetPassword C s now token_in password_in salt = (Inr r, s')"
  shows "\<exists>tok pw u. token_in = Some tok \<and> password_in = Some pw \<and> tok \<noteq> [] \<and> 8 \<le> length pw
           \<and> findByPasswordResetToken C s now tok = Some u
           \<and> s' = save s now (u\<lparr>password := bcrypt_hash C pw salt, passwordResetToken := None,
                                  passwordResetExpires := None, refreshTokens := []\<rparr>)"
  using assms
  by (auto simp: resetPassword_def save_password_def Let_def save_def
      split: option.splits if_splits sum.splits prod.splits)

section \<open>The sample data, field by field\<close>

lemma alice_fields:
  "uid alice = ''u1''" "email alice = ''alice@example.com''" "password alice = ''s1Passw0rd!''"
  "role alice = USER" "refreshTokens alice = []"
  "emailVerificationToken alice = None" "emailVerificationExpires alice = None"
  "passwordResetToken alice = None" "passwordResetExpires alice = None"
  by (simp_all add: alice_def)

lemma bob0_fields:
  "uid bob0 = ''u2''" "email bob0 = ''bob@example.com''" "password bob0 = ''s2hunter2hunter''"
  "role bob0 = USER" "refreshTokens bob0 = []"
  by (simp_all add: bob0_def)

lemma bob_fields:
  "uid bob = ''u2''" "email bob = ''bob@example.com''" "password bob = ''s2hunter2hunter''"
  "role bob = USER" "refreshTokens bob = [bob_token]"
  "emailVerificationToken bob = Some ''sha256:v3r1fy''" "emailVerificationExpires bob = Some 86403000"
  "passwordResetToken bob = Some ''sha256:r3s3t''" "passwordResetExpires bob = Some 603000"
  by (simp_all add: bob_def bob0_def)

lemmas sample_fields = alice_fields bob0_fields bob_fields

lemma alice_session_fields:
  "uid (alice_session k) = ''u1''" "email (alice_session k) = ''alice@example.com''"
  "role (alice_session k) = USER" "refreshTokens (alice_session k) = [alice_token]"
  by (simp_all add: alice_session_def sample_fields)

lemma bob_two_sessions_fields:
  "uid bob_two_sessions = ''u2''" "email bob_two_sessions = ''bob@example.com''"
  "role bob_two_sessions = USER"
  "refreshTokens bob_two_sessions = [bob_token, bob_token2, bob_token]"
  by (simp_all add: bob_two_sessions_def sample_fields)

lemma demo_crypto_simps:
  "sha256 demo_crypto str = ''sha256:'' @ str"
  "bcrypt_hash demo_crypto pw salt = salt @ pw"
  "bcrypt_compare demo_crypto candidate h = (drop 2 h = candidate)"
  by (simp_all add: demo_crypto_def)

lemma demo_config_simps:
  "accessSecret demo_config = ''access-secret''" "refreshSecret demo_config = ''refresh-secret''"
  "accessExpiresIn demo_config = 900" "refreshExpiresIn demo_config = 604800"
  "nodeEnv demo_config = ''production''"
  by (simp_all add: demo_config_def)

lemma token_simps:
  "bob_access = Jwt ''access-secret''
      \<lparr>userId = ''u2'', payload_email = ''bob@example.com'', payload_role = USER,
       payload_type = ''access''\<rparr> 6 906"
  "bob_token = Jwt ''refresh-secret''
      \<lparr>userId = ''u2'', payload_email = ''bob@example.com'', payload_role = USER,
       payload_type = ''refresh''\<rparr> 3 604803"
  "alice_token = Jwt ''refresh-secret''
      \<lparr>userId = ''u1'', payload_email = ''alice@example.com'', payload_role = USER,
       payload_type = ''refresh''\<rparr> 5 604805"
  by (simp_all add: bob_access_def bob_token_def alice_token_def generateAccessToken_def
      generateRefreshToken_def jwt_sign_def clockTimestamp_def demo_config_def sample_fields)

lemma bob_token2_simp:
  "bob_token2 = Jwt ''refresh-secret''
      \<lparr>userId = ''u2'', payload_email = ''bob@example.com'', payload_role = USER,
       payload_type = ''refresh''\<rparr> 4 604804"
  by (simp add: bob_token2_def generateRefreshToken_def jwt_sign_def clockTimestamp_def
      demo_config_simps sample_fields)

lemma find_alice: "findByEmail [alice, bob] ''Alice@Example.com'' = Some alice"
  by (simp add: findByEmail_def toLowerCase_def sample_fields)

lemma find_nobody: "findByEmail [alice, bob] ''nobody@example.com'' = None"
  by (simp add: findByEmail_def toLowerCase_def sample_fields)

lemma find_alice_alone: "findByEmail [alice] ''alice@example.com'' = Some alice"
  by (simp add: findByEmail_def toLowerCase_def sample_fields)

lemma alice_login:
  "login demo_crypto demo_config [alice] 5000 ''alice@example.com'' (JString ''Passw0rd!'') =
     (Inr (ok_response 200 ''Login successful''
             (AuthData (publicUser alice) (generateTokenPair demo_config 5000 alice))
             (SetRefreshCookie alice_token)),
      [alice_session 5000])"
  by (simp add: login_def find_alice_alone comparePassword_def demo_crypto_simps sample_fields
      Let_def publicUser_def generateTokenPair_def alice_token_def save_def alice_session_def)

lemma alice_refresh:
  assumes "clockTimestamp now = 5"
  shows "refreshToken_handler demo_config [alice_session k] now (Some alice_token) None =
     (Inr (ok_response 200 ''Token refreshed successfully''
             (TokenData (generateTokenPair demo_config now (alice_session k)))
             (SetRefreshCookie alice_token)),
      [alice_session now])"
proof -
  have m: "generateRefreshToken demo_config now (alice_session k) = alice_token"
    using assms
    by (simp add: generateRefreshToken_def jwt_sign_def demo_config_simps
        alice_session_fields token_simps)
  have v: "verifyRefreshToken demo_config now alice_token =
             Inr \<lparr>userId = ''u1'', payload_email = ''alice@example.com'', payload_role = USER,
                  payload_type = ''refresh''\<rparr>"
    using assms by (simp add: verifyRefreshToken_def token_simps demo_config_simps)
  have p: "presentedRefreshToken (Some alice_token) None = Some alice_token"
    by (simp add: presentedRefreshToken_def token_simps)
  have t: "truthy alice_token" by (simp add: token_simps)
  have f: "findById [alice_session k] ''u1'' = Some (alice_session k)"
    by (simp add: findById_def alice_session_fields)
  have s: "save [alice_session k] now
             (alice_session k\<lparr>refreshTokens := [alice_token]\<rparr>) = [alice_session now]"
    by (simp add: save_def alice_session_def)
  show ?thesis
    by (simp add: refreshToken_handler_def p t v f alice_session_fields Let_def
        generateTokenPair_def m s)
qed

lemma sample_reset:
  "resetPassword demo_crypto [alice, bob] 7000 (Some ''r3s3t'') (Some ''N3wPassw0rd!'') ''s9'' =
     (Inr (ok_response 200 ''Password reset successfully. Please log in with your new password.''
             NoData NoCookie), [alice, bob_reset])"
proof -
  have "findByPasswordResetToken demo_crypto [alice, bob] 7000 ''r3s3t'' = Some bob"
    by (simp add: findByPasswordResetToken_def passwordResetTokenMatches_def sample_fields
        demo_crypto_simps)
  then show ?thesis
    by (simp add: resetPassword_def save_password_def demo_crypto_simps Let_def)
      (simp add: save_def sample_fields bob_reset_def)
qed

section \<open>Refresh-token rotation\<close>

text \<open>
  A rotation that mints a token different from the presented one spends the presented
  token: as long as it still verifies, presenting it again is answered with
  \<^verbatim>\<open>UnauthorizedError('Invalid refresh token')\<close>.
\<close>

lemma rotation_single_use_if_fresh:
  assumes first: "refreshToken_handler cfg s now cookie_in header_in = (Inr r, s')"
    and t: "presentedRefreshToken cookie_in header_in = Some t"
    and fresh: "cookie r \<noteq> SetRefreshCookie t"
    and again: "presentedRefreshToken cookie_in' header_in' = Some t"
    and valid: "verifyRefreshToken cfg now' t = Inr d"
  shows "refreshToken_handler cfg s' now' cookie_in' header_in' =
           (Inl (UnauthorizedError ''Invalid refresh token''), s')"
proof -
  from refreshToken_handler_success [OF first] t obtain d0 u where
    v: "verifyRefreshToken cfg now t = Inr d0"
    and f: "findById s (userId d0) = Some u"
    and s': "s' = save s now (u\<lparr>refreshTokens :=
                      filter (\<lambda>x. x \<noteq> t) (refreshTokens u) @ [refreshToken (generateTokenPair cfg now u)]\<rparr>)"
    and r: "r = ok_response 200 ''Token refreshed successfully''
                   (TokenData (generateTokenPair cfg now u))
                   (SetRefreshCookie (refreshToken (generateTokenPair cfg now u)))"
    by auto
  let ?u = "u\<lparr>refreshTokens :=
              filter (\<lambda>x. x \<noteq> t) (refreshTokens u) @ [refreshToken (generateTokenPair cfg now u)]\<rparr>"
  from v valid have d: "d = d0" by (auto dest!: verifyRefreshToken_Inr)
  from f have id: "uid u = userId d0" by (auto dest: findById_Some_uid)
  from f id have "findById s (uid ?u) = Some u" by simp
  from findById_save_same [OF this, of now] id
  have f': "findById s' (userId d) = Some (?u\<lparr>updatedAt := now\<rparr>)"
    unfolding s' d by simp
  from fresh r have "refreshToken (generateTokenPair cfg now u) \<noteq> t"
    by (auto simp: ok_response_def)
  then have "t \<notin> set (refreshTokens (?u\<lparr>updatedAt := now\<rparr>))" by auto
  from refreshToken_handler_not_member [OF again valid f' this] show ?thesis .
qed

text \<open>
  The minted token differs from every refresh token minted in an earlier second, and is
  the token minted earlier in the same second for the same user id, email and role.
\<close>

lemma minted_in_later_second_differs:
  assumes "clockTimestamp now0 < clockTimestamp now"
  shows "generateRefreshToken cfg now u \<noteq> generateRefreshToken cfg now0 u0"
  using assms by (simp add: generateRefreshToken_def jwt_sign_def)

lemma minted_in_same_second_equal:
  assumes "clockTimestamp now0 = clockTimestamp now"
    and "uid u = uid u0" and "email u = email u0" and "role u = role u0"
  shows "generateRefreshToken cfg now u = generateRefreshToken cfg now0 u0"
  using assms by (simp add: generateRefreshToken_def jwt_sign_def)

text \<open>
  When the minted token is the presented one, the rotation hands the presented token
  back and it stays a member of the set: presenting it once more, at any time at which
  it verifies, succeeds again.
\<close>

lemma rotation_in_minting_second_replays:
  assumes p: "presentedRefreshToken cookie_in header_in = Some t"
    and v: "verifyRefreshToken cfg now t = Inr d"
    and f: "findById s (userId d) = Some u"
    and m: "t \<in> set (refreshTokens u)"
    and same: "refreshToken (generateTokenPair cfg now u) = t"
    and v': "verifyRefreshToken cfg now' t = Inr d'"
  shows "\<exists>r s'. refreshToken_handler cfg s now cookie_in header_in = (Inr r, s')
           \<and> cookie r = SetRefreshCookie t
           \<and> (\<exists>r' s''. refreshToken_handler cfg s' now' cookie_in header_in = (Inr r', s''))"
proof -
  let ?u = "u\<lparr>refreshTokens := filter (\<lambda>x. x \<noteq> t) (refreshTokens u) @ [t]\<rparr>"
  let ?s = "save s now ?u"
  from refreshToken_handler_member [OF p v f m] same
  have first: "refreshToken_handler cfg s now cookie_in header_in =
      (Inr (ok_response 200 ''Token refreshed successfully''
              (TokenData (generateTokenPair cfg now u)) (SetRefreshCookie t)), ?s)"
    by simp
  from v v' have d: "d' = d" by (auto dest!: verifyRefreshToken_Inr)
  from f have "findById s (uid ?u) = Some u"
    using findById_Some_uid [of s "userId d" u] by simp
  from findById_save_same [OF this, of now] f
  have f': "findById ?s (userId d') = Some (?u\<lparr>updatedAt := now\<rparr>)"
    using findById_Some_uid [of s "userId d" u] by (simp add: d)
  have "t \<in> set (refreshTokens (?u\<lparr>updatedAt := now\<rparr>))" by simp
  from refreshToken_handler_member [OF p v' f' this]
  have "\<exists>r' s''. refreshToken_handler cfg ?s now' cookie_in header_in = (Inr r', s'')"
    by blast
  with first show ?thesis by (simp add: ok_response_def)
qed

text \<open>
  Claim C1 (rotation single-use: a refresh with a token of the user's set succeeds the first
  time, and a second refresh with the same token fails with Unauthorized). The code does
  not keep this when the rotation happens in the second in which the presented token
  was minted: the payload, \<open>iat\<close> and \<open>exp\<close> of the new refresh token are then those
  of the presented one, so the token minted is the presented token itself, the filter
  removes it and the push puts it back. Alice logs in at 5000 ms and receives
  \<open>alice_token\<close>; her refresh at 5400 ms succeeds and returns \<open>alice_token\<close> again; her
  second refresh with the same token at 5900 ms succeeds as well, and the token is still
  the one member of her set.
\<close>

theorem rotation_same_second_replay:
  "login demo_crypto demo_config [alice] 5000 ''alice@example.com'' (JString ''Passw0rd!'') =
     (Inr (ok_response 200 ''Login successful''
             (AuthData (publicUser alice) (generateTokenPair demo_config 5000 alice))
             (SetRefreshCookie alice_token)),
      [alice_session 5000])
   \<and> refreshToken_handler demo_config [alice_session 5000] 5400 (Some alice_token) None =
       (Inr (ok_response 200 ''Token refreshed successfully''
               (TokenData (generateTokenPair demo_config 5400 (alice_session 5000)))
               (SetRefreshCookie alice_token)),
        [alice_session 5400])
   \<and> refreshToken_handler demo_config [alice_session 5400] 5900 (Some alice_token) None =
       (Inr (ok_response 200 ''Token refreshed successfully''
               (TokenData (generateTokenPair demo_config 5900 (alice_session 5400)))
               (SetRefreshCookie alice_token)),
        [alice_session 5900])
   \<and> refreshTokens (alice_session 5900) = [alice_token]"
proof -
  have a: "clockTimestamp 5400 = 5" and b: "clockTimestamp 5900 = 5"
    by (simp_all add: clockTimestamp_def)
  from alice_login alice_refresh [OF a, of 5000] alice_refresh [OF b, of 5400]
  show ?thesis by (simp add: alice_session_fields)
qed

text \<open>Every way in which the refresh handler fails, and the store it leaves.\<close>

lemma refresh_failures_classified:
  assumes "refreshToken_handler cfg s now cookie_in header_in = (Inl e, s')"
  shows "s' = s \<and> (e = UnauthorizedError ''Refresh token required''
                   \<or> e = Error ''Invalid refresh token''
                   \<or> e = UnauthorizedError ''User not found''
                   \<or> e = UnauthorizedError ''Invalid refresh token'')"
  using assms
  by (auto simp: refreshToken_handler_def Let_def dest: verifyRefreshToken_Inl
      split: option.splits sum.splits if_splits)

text \<open>
  Claim C2 (every failure of the refresh operation is an Unauthorized failure, HTTP 401).
  This holds for an absent token and for a token outside the user's set, and fails for a
  token that does not verify: \<open>verifyRefreshToken\<close> throws a plain \<^verbatim>\<open>Error\<close>, which is
  no \<open>ApiError\<close> and carries no status. For every configuration, store and clock: a
  non-empty string that is no JWT, a refresh token presented at or after its expiry, and
  an access token presented as refresh token all end in \<^verbatim>\<open>Error('Invalid refresh token')\<close>,
  which is not an \<open>UnauthorizedError\<close> and which \<open>errorHandler\<close>, like the framework's
  default handler, answers with status 500.
\<close>

theorem refresh_unverifiable_token_is_not_unauthorized:
  "refreshToken_handler cfg s now (Some (NotJwt (c # str))) header_in =
     (Inl (Error ''Invalid refresh token''), s)
   \<and> refreshToken_handler cfg s (now0 + 1000 * refreshExpiresIn cfg + d)
        (Some (generateRefreshToken cfg now0 u)) header_in =
     (Inl (Error ''Invalid refresh token''), s)
   \<and> refreshToken_handler cfg s now (Some (generateAccessToken cfg now0 u)) header_in =
     (Inl (Error ''Invalid refresh token''), s)
   \<and> Error ''Invalid refresh token'' \<noteq> UnauthorizedError msg
   \<and> status (errorHandler cfg (Error ''Invalid refresh token'')) = 500
   \<and> express_default_status (Error ''Invalid refresh token'') = 500"
proof (intro conjI)
  show "refreshToken_handler cfg s now (Some (NotJwt (c # str))) header_in =
     (Inl (Error ''Invalid refresh token''), s)"
    by (simp add: refreshToken_handler_def presentedRefreshToken_def verifyRefreshToken_def)
  have "clockTimestamp now0 + refreshExpiresIn cfg
          \<le> clockTimestamp (now0 + 1000 * refreshExpiresIn cfg + d)"
    unfolding clockTimestamp_def by (simp add: div_le_mono add.commute)
  then show "refreshToken_handler cfg s (now0 + 1000 * refreshExpiresIn cfg + d)
        (Some (generateRefreshToken cfg now0 u)) header_in =
     (Inl (Error ''Invalid refresh token''), s)"
    by (simp add: refreshToken_handler_def presentedRefreshToken_def verifyRefreshToken_def
        generateRefreshToken_def jwt_sign_def)
  show "refreshToken_handler cfg s now (Some (generateAccessToken cfg now0 u)) header_in =
     (Inl (Error ''Invalid refresh token''), s)"
    by (simp add: refreshToken_handler_def presentedRefreshToken_def verifyRefreshToken_def
        generateAccessToken_def jwt_sign_def)
  show "Error ''Invalid refresh token'' \<noteq> UnauthorizedError msg"
    by (simp add: Error_def UnauthorizedError_def)
  show "status (errorHandler cfg (Error ''Invalid refresh token'')) = 500"
    by (simp add: errorHandler_def Error_def Let_def)
  show "express_default_status (Error ''Invalid refresh token'') = 500"
    by (simp add: Error_def)
qed

section \<open>Kind isolation\<close>

text \<open>
  Claim C3. For every configuration (also one whose two secrets coincide), every user and
  every pair of instants, the access token minted for the user is rejected by the
  refresh-token verifier and the refresh token minted for the user is rejected by the
  access-token verifier, whatever the clock says at verification, so also while the
  signature is valid and the token unexpired.
\<close>

theorem kind_isolation:
  "verifyRefreshToken cfg now' (generateAccessToken cfg now u) = Inl (Error ''Invalid refresh token'')
   \<and> verifyAccessToken cfg now' (generateRefreshToken cfg now u) = Inl (Error ''Invalid access token'')"
  by (simp add: verifyRefreshToken_def verifyAccessToken_def generateAccessToken_def
      generateRefreshToken_def jwt_sign_def)

section \<open>Password reset and the sessions\<close>

text \<open>
  What the reset achieves. After a successful reset-password operation the user the
  reset token matched has an empty list of refresh tokens, in the document \<open>findById\<close>
  returns and in every document with that \<open>uid\<close>. A presented token that verifies and
  names the user as its subject is answered with
  \<^verbatim>\<open>UnauthorizedError('Invalid refresh token')\<close>, in particular every refresh token the
  service minted for the user that has not yet expired; and no token whose subject is
  the user makes the refresh succeed.
\<close>

lemma reset_revokes_sessions:
  assumes "resetPassword C s now token_in password_in salt = (Inr r, s')"
  shows "\<exists>tok u. token_in = Some tok \<and> findByPasswordResetToken C s now tok = Some u
          \<and> (\<exists>u'. findById s' (uid u) = Some u' \<and> refreshTokens u' = [])
          \<and> (\<forall>v \<in> set s'. uid v = uid u \<longrightarrow> refreshTokens v = [])
          \<and> (\<forall>cfg now' cookie_in header_in t d.
                presentedRefreshToken cookie_in header_in = Some t \<and>
                verifyRefreshToken cfg now' t = Inr d \<and> userId d = uid u \<longrightarrow>
                refreshToken_handler cfg s' now' cookie_in header_in =
                  (Inl (UnauthorizedError ''Invalid refresh token''), s'))
          \<and> (\<forall>cfg now0 now' u0 header_in.
                uid u0 = uid u \<and> clockTimestamp now' < clockTimestamp now0 + refreshExpiresIn cfg \<longrightarrow>
                refreshToken_handler cfg s' now' (Some (generateRefreshToken cfg now0 u0)) header_in =
                  (Inl (UnauthorizedError ''Invalid refresh token''), s'))
          \<and> (\<forall>cfg now' cookie_in header_in t.
                presentedRefreshToken cookie_in header_in = Some t \<and>
                (\<forall>d. verifyRefreshToken cfg now' t = Inr d \<longrightarrow> userId d = uid u) \<longrightarrow>
                (\<exists>e. refreshToken_handler cfg s' now' cookie_in header_in = (Inl e, s')))"
proof -
  from resetPassword_success [OF assms] obtain tok pw u where
    h: "token_in = Some tok" "findByPasswordResetToken C s now tok = Some u"
    and s': "s' = save s now (u\<lparr>password := bcrypt_hash C pw salt, passwordResetToken := None,
                                  passwordResetExpires := None, refreshTokens := []\<rparr>)"
    by blast
  let ?u = "u\<lparr>password := bcrypt_hash C pw salt, passwordResetToken := None,
               passwordResetExpires := None, refreshTokens := []\<rparr>"
  have id: "uid ?u = uid u" by simp
  from h(2) have "u \<in> set s" by (auto dest: findByPasswordResetToken_Some)
  then obtain w where "findById s (uid u) = Some w"
    by (cases "findById s (uid u)") (auto simp: findById_def find_None_iff)
  then have f: "findById s' (uid u) = Some (?u\<lparr>updatedAt := now\<rparr>)"
    unfolding s' using findById_save_same [of s ?u w now] by simp
  then have a: "\<exists>u'. findById s' (uid u) = Some u' \<and> refreshTokens u' = []" by simp
  have b: "\<forall>v \<in> set s'. uid v = uid u \<longrightarrow> refreshTokens v = []"
    unfolding s' by (auto dest!: in_set_save)
  have c: "refreshToken_handler cfg s' now' cookie_in header_in =
                  (Inl (UnauthorizedError ''Invalid refresh token''), s')"
    if "presentedRefreshToken cookie_in header_in = Some t"
      and "verifyRefreshToken cfg now' t = Inr d" and "userId d = uid u"
    for cfg now' cookie_in header_in t d
    using that f refreshToken_handler_not_member [of cookie_in header_in t cfg now' d s' "?u\<lparr>updatedAt := now\<rparr>"]
    by simp
  have d: "refreshToken_handler cfg s' now' (Some (generateRefreshToken cfg now0 u0)) header_in =
                  (Inl (UnauthorizedError ''Invalid refresh token''), s')"
    if "uid u0 = uid u" and "clockTimestamp now' < clockTimestamp now0 + refreshExpiresIn cfg"
    for cfg now0 now' u0 header_in
  proof (rule c)
    show "presentedRefreshToken (Some (generateRefreshToken cfg now0 u0)) header_in =
            Some (generateRefreshToken cfg now0 u0)"
      by (simp add: presentedRefreshToken_def generateRefreshToken_def jwt_sign_def)
    show "verifyRefreshToken cfg now' (generateRefreshToken cfg now0 u0) =
            Inr \<lparr>userId = uid u0, payload_email = email u0, payload_role = role u0,
                 payload_type = ''refresh''\<rparr>"
      using that(2) by (simp add: verifyRefreshToken_def generateRefreshToken_def jwt_sign_def)
    show "userId \<lparr>userId = uid u0, payload_email = email u0, payload_role = role u0,
                 payload_type = ''refresh''\<rparr> = uid u"
      using that(1) by simp
  qed
  have e: "\<exists>e. refreshToken_handler cfg s' now' cookie_in header_in = (Inl e, s')"
    if p: "presentedRefreshToken cookie_in header_in = Some t"
      and v: "\<forall>d. verifyRefreshToken cfg now' t = Inr d \<longrightarrow> userId d = uid u"
    for cfg now' cookie_in header_in t
  proof (cases "verifyRefreshToken cfg now' t")
    case (Inl x)
    with p show ?thesis by (rule refreshToken_handler_fails_unverified)
  next
    case (Inr d)
    with v have "userId d = uid u" by blast
    with c [OF p Inr] show ?thesis by blast
  qed
  show ?thesis
  proof (intro exI conjI)
    show "token_in = Some tok" by (rule h(1))
    show "findByPasswordResetToken C s now tok = Some u" by (rule h(2))
    show "findById s' (uid u) = Some (?u\<lparr>updatedAt := now\<rparr>)" by (rule f)
    show "refreshTokens (?u\<lparr>updatedAt := now\<rparr>) = []" by simp
    show "\<forall>v \<in> set s'. uid v = uid u \<longrightarrow> refreshTokens v = []" by (rule b)
    show "\<forall>cfg now' cookie_in header_in t d.
                presentedRefreshToken cookie_in header_in = Some t \<and>
                verifyRefreshToken cfg now' t = Inr d \<and> userId d = uid u \<longrightarrow>
                refreshToken_handler cfg s' now' cookie_in header_in =
                  (Inl (UnauthorizedError ''Invalid refresh token''), s')"
      using c by (intro allI impI) (elim conjE)
    show "\<forall>cfg now0 now' u0 header_in.
                uid u0 = uid u \<and> clockTimestamp now' < clockTimestamp now0 + refreshExpiresIn cfg \<longrightarrow>
                refreshToken_handler cfg s' now' (Some (generateRefreshToken cfg now0 u0)) header_in =
                  (Inl (UnauthorizedError ''Invalid refresh token''), s')"
      using d by (intro allI impI) (elim conjE)
    show "\<forall>cfg now' cookie_in header_in t.
                presentedRefreshToken cookie_in header_in = Some t \<and>
                (\<forall>d. verifyRefreshToken cfg now' t = Inr d \<longrightarrow> userId d = uid u) \<longrightarrow>
                (\<exists>e. refreshToken_handler cfg s' now' cookie_in header_in = (Inl e, s'))"
      using e by (intro allI impI) (elim conjE)
  qed
qed

text \<open>
  A refresh token presented at or after its expiry never reaches the membership test:
  the verifier runs first and throws its plain \<^verbatim>\<open>Error\<close>, whatever the store holds.
\<close>

lemma expired_refresh_token_rejected_by_verifier:
  "refreshToken_handler cfg s (now0 + 1000 * refreshExpiresIn cfg + d)
     (Some (generateRefreshToken cfg now0 u0)) header_in =
   (Inl (Error ''Invalid refresh token''), s)"
proof -
  have "clockTimestamp now0 + refreshExpiresIn cfg
          \<le> clockTimestamp (now0 + 1000 * refreshExpiresIn cfg + d)"
    unfolding clockTimestamp_def by (simp add: div_le_mono add.commute)
  then show ?thesis
    by (simp add: refreshToken_handler_def presentedRefreshToken_def verifyRefreshToken_def
        generateRefreshToken_def jwt_sign_def)
qed

text \<open>
  Claim C4 (after a successful reset the user's set of refresh tokens is empty, so every
  refresh token issued to the user before the reset fails rotation with Unauthorized).
  The reset does empty the set, and a token issued before it is refused with
  \<^verbatim>\<open>UnauthorizedError('Invalid refresh token')\<close> as long as it verifies. A token issued
  before the reset that has expired when it is presented fails differently: the verifier
  runs before the membership test and throws \<^verbatim>\<open>Error('Invalid refresh token')\<close>, which
  is no \<open>UnauthorizedError\<close> and is answered with status 500 (the defect of claim C2).
  Bob's token is minted at 3000 ms with a lifetime of seven days and accepted at 6900 ms;
  his password is reset at 7000 ms; the token is refused with Unauthorized at 8000 ms,
  and with the plain error at 604803000 ms, the instant of its expiry.
\<close>

theorem reset_then_expired_token_is_not_unauthorized:
  "fst (refreshToken_handler demo_config [alice, bob] 6900 (Some bob_token) None) =
     Inr (ok_response 200 ''Token refreshed successfully''
            (TokenData (generateTokenPair demo_config 6900 bob))
            (SetRefreshCookie (generateRefreshToken demo_config 6900 bob)))
   \<and> resetPassword demo_crypto [alice, bob] 7000 (Some ''r3s3t'') (Some ''N3wPassw0rd!'') ''s9'' =
       (Inr (ok_response 200 ''Password reset successfully. Please log in with your new password.''
               NoData NoCookie), [alice, bob_reset])
   \<and> refreshTokens bob_reset = []
   \<and> refreshToken_handler demo_config [alice, bob_reset] 8000 (Some bob_token) None =
       (Inl (UnauthorizedError ''Invalid refresh token''), [alice, bob_reset])
   \<and> refreshToken_handler demo_config [alice, bob_reset] 604803000 (Some bob_token) None =
       (Inl (Error ''Invalid refresh token''), [alice, bob_reset])
   \<and> Error ''Invalid refresh token'' \<noteq> UnauthorizedError ''Invalid refresh token''
   \<and> status (errorHandler demo_config (Error ''Invalid refresh token'')) = 500
   \<and> express_default_status (Error ''Invalid refresh token'') = 500"
proof -
  have before: "fst (refreshToken_handler demo_config [alice, bob] 6900 (Some bob_token) None) =
     Inr (ok_response 200 ''Token refreshed successfully''
            (TokenData (generateTokenPair demo_config 6900 bob))
            (SetRefreshCookie (generateRefreshToken demo_config 6900 bob)))"
    by (simp add: refreshToken_handler_def presentedRefreshToken_def verifyRefreshToken_def
        token_simps demo_config_simps clockTimestamp_def findById_def sample_fields
        generateTokenPair_def Let_def)
  have fr: "findByPasswordResetToken demo_crypto [alice, bob] 7000 ''r3s3t'' = Some bob"
    by (simp add: findByPasswordResetToken_def passwordResetTokenMatches_def sample_fields
        demo_crypto_simps)
  from reset_revokes_sessions [OF sample_reset]
  obtain tok u where a: "Some ''r3s3t'' = Some tok"
    and b: "findByPasswordResetToken demo_crypto [alice, bob] 7000 tok = Some u"
    and c: "\<forall>cfg now0 now' u0 header_in.
                uid u0 = uid u \<and> clockTimestamp now' < clockTimestamp now0 + refreshExpiresIn cfg \<longrightarrow>
                refreshToken_handler cfg [alice, bob_reset] now' (Some (generateRefreshToken cfg now0 u0)) header_in =
                  (Inl (UnauthorizedError ''Invalid refresh token''), [alice, bob_reset])"
    by (elim exE conjE)
  from a b fr have u: "u = bob" by simp
  have "uid bob0 = uid bob \<and>
        clockTimestamp 8000 < clockTimestamp 3000 + refreshExpiresIn demo_config"
    by (simp add: sample_fields clockTimestamp_def demo_config_simps)
  with c [unfolded u, rule_format, of bob0 8000 3000 demo_config None]
  have after: "refreshToken_handler demo_config [alice, bob_reset] 8000 (Some bob_token) None =
       (Inl (UnauthorizedError ''Invalid refresh token''), [alice, bob_reset])"
    by (simp add: bob_token_def)
  have empty: "refreshTokens bob_reset = []" by (simp add: bob_reset_def)
  from expired_refresh_token_rejected_by_verifier
    [of demo_config "[alice, bob_reset]" 3000 0 bob0 None]
  have expired: "refreshToken_handler demo_config [alice, bob_reset] 604803000 (Some bob_token) None =
       (Inl (Error ''Invalid refresh token''), [alice, bob_reset])"
    by (simp add: bob_token_def demo_config_simps)
  have ne: "Error ''Invalid refresh token'' \<noteq> UnauthorizedError ''Invalid refresh token''"
    by (simp add: Error_def UnauthorizedError_def)
  have st: "status (errorHandler demo_config (Error ''Invalid refresh token'')) = 500"
    by (simp add: errorHandler_def Error_def Let_def)
  have dst: "express_default_status (Error ''Invalid refresh token'') = 500"
    by (simp add: Error_def)
  from before sample_reset empty after expired ne st dst show ?thesis by (intro conjI)
qed

section \<open>Forgot password and account enumeration\<close>

text \<open>
  Claim C5 (anti-enumeration of forgot password), amended: whenever the reset mail for
  the existing account is delivered, a request for an address with an account and a
  request for an address without one get the same response, status 200 with
  \<^verbatim>\<open>success: true\<close> and the same generic message (the request for the unknown address
  gets it whatever the transport does, and leaves the store unchanged).
\<close>

theorem forgot_password_anti_enumeration:
  assumes "findByEmail s email1 = Some u" and "findByEmail s email2 = None"
  shows "fst (forgotPassword C s now email1 rnd1 True) = Inr generic_reset_response
         \<and> forgotPassword C s now email2 rnd2 mail_ok = (Inr generic_reset_response, s)
         \<and> status generic_reset_response = 200
         \<and> success generic_reset_response"
  using assms
  by (simp add: forgotPassword_def generatePasswordResetToken_def Let_def
      generic_reset_response_def ok_response_def)

theorem forgot_password_anti_enumeration_witness:
  "findByEmail [alice, bob] ''Alice@Example.com'' = Some alice
   \<and> findByEmail [alice, bob] ''nobody@example.com'' = None
   \<and> fst (forgotPassword demo_crypto [alice, bob] 5000 ''Alice@Example.com'' ''r4nd0m'' True) =
       Inr generic_reset_response
   \<and> forgotPassword demo_crypto [alice, bob] 5000 ''nobody@example.com'' ''r4nd0m'' True =
       (Inr generic_reset_response, [alice, bob])"
  using forgot_password_anti_enumeration [OF find_alice find_nobody, of demo_crypto 5000
      "''r4nd0m''" "''r4nd0m''" True] find_alice find_nobody
  by simp

text \<open>
  For every store, a request for an address with an account throws when the transport
  does not deliver, after the reset token has been saved.
\<close>

lemma forgot_password_mail_failure:
  assumes "findByEmail s email_in = Some u"
  shows "fst (forgotPassword C s now email_in rnd False) =
           Inl (Error ''Failed to send password reset email'')"
  using assms by (simp add: forgotPassword_def generatePasswordResetToken_def Let_def)

text \<open>
  Without the proviso on delivery the statement fails. When the transport does not
  deliver, the request for Alice's address throws
  \<^verbatim>\<open>Error('Failed to send password reset email')\<close>, which is answered with status 500,
  while the request for an unknown address is answered with the generic success response.
\<close>

theorem forgot_password_mail_failure_counterexample:
  "findByEmail [alice, bob] ''Alice@Example.com'' = Some alice
   \<and> findByEmail [alice, bob] ''nobody@example.com'' = None
   \<and> fst (forgotPassword demo_crypto [alice, bob] 5000 ''Alice@Example.com'' ''r4nd0m'' False) =
       Inl (Error ''Failed to send password reset email'')
   \<and> fst (forgotPassword demo_crypto [alice, bob] 5000 ''nobody@example.com'' ''r4nd0m'' False) =
       Inr generic_reset_response
   \<and> status (errorHandler demo_config (Error ''Failed to send password reset email'')) = 500
   \<and> status generic_reset_response = 200"
  by (simp add: forgotPassword_def find_alice find_nobody generatePasswordResetToken_def Let_def
      generic_reset_response_def errorHandler_def Error_def ok_response_def isDevelopment_def
      demo_config_simps)

section \<open>Login failures\<close>

text \<open>
  What \<open>comparePassword\<close> throws, \<open>login\<close> throws, with the store unchanged; it throws
  for an existing account exactly when the password is not a string.
\<close>

lemma login_comparison_failure:
  assumes "findByEmail s email_in = Some u" and "comparePassword C password_in u = Inl e"
  shows "login C cfg s now email_in password_in = (Inl e, s)"
  using assms by (simp add: login_def)

lemma comparePassword_string:
  "comparePassword C (JString pw) u = Inr (bcrypt_compare C pw (password u))"
  by (simp add: comparePassword_def)

lemma comparePassword_not_string:
  "comparePassword C (JNumber n) u = Inl (Error ''Password comparison failed'')"
  "comparePassword C (JBool b) u = Inl (Error ''Password comparison failed'')"
  by (simp_all add: comparePassword_def)




section \<open>One-time tokens\<close>

lemma verifyEmail_single_use:
  assumes "verifyEmail C s now token_in = (Inr r, s')"
  shows "\<exists>tok u. token_in = Some tok \<and> findByVerificationToken C s now tok = Some u
          \<and> (\<forall>v \<in> set s'. uid v = uid u \<longrightarrow>
                emailVerificationToken v = None \<and> emailVerificationExpires v = None)
          \<and> (\<forall>now' tok' v. findByVerificationToken C s' now' tok' = Some v \<longrightarrow> uid v \<noteq> uid u)
          \<and> ((\<forall>v \<in> set s. emailVerificationToken v = Some (sha256 C tok) \<longrightarrow> uid v = uid u) \<longrightarrow>
               (\<forall>now'. verifyEmail C s' now' token_in =
                  (Inl (BadRequestError ''Invalid or expired verification token''), s')))"
proof -
  from verifyEmail_success [OF assms] obtain tok u where
    h: "token_in = Some tok" "tok \<noteq> []" "findByVerificationToken C s now tok = Some u"
    and s': "s' = save s now (u\<lparr>isEmailVerified := True, emailVerificationToken := None,
                                  emailVerificationExpires := None\<rparr>)"
    by blast
  let ?u = "u\<lparr>isEmailVerified := True, emailVerificationToken := None,
               emailVerificationExpires := None\<rparr>"
  have tk: "emailVerificationToken ?u = None" and id: "uid ?u = uid u" by simp_all
  have a: "\<forall>v \<in> set s'. uid v = uid u \<longrightarrow>
             emailVerificationToken v = None \<and> emailVerificationExpires v = None"
    unfolding s' by (auto dest!: in_set_save)
  have b: "\<forall>now' tok' v. findByVerificationToken C s' now' tok' = Some v \<longrightarrow> uid v \<noteq> uid u"
    unfolding s' using verification_cleared_no_match [OF tk] id by metis
  have c: "(\<forall>v \<in> set s. emailVerificationToken v = Some (sha256 C tok) \<longrightarrow> uid v = uid u) \<longrightarrow>
             (\<forall>now'. verifyEmail C s' now' token_in =
                (Inl (BadRequestError ''Invalid or expired verification token''), s'))"
  proof (intro impI allI)
    fix now'
    assume "\<forall>v \<in> set s. emailVerificationToken v = Some (sha256 C tok) \<longrightarrow> uid v = uid u"
    then have "findByVerificationToken C s' now' tok = None"
      unfolding s' using verification_cleared_none [OF tk, of s C tok now now'] by simp
    with h show "verifyEmail C s' now' token_in =
                (Inl (BadRequestError ''Invalid or expired verification token''), s')"
      by (simp add: verifyEmail_def)
  qed
  from h a b c show ?thesis by blast
qed

lemma resetPassword_single_use:
  assumes "resetPassword C s now token_in password_in salt = (Inr r, s')"
  shows "\<exists>tok u. token_in = Some tok \<and> findByPasswordResetToken C s now tok = Some u
          \<and> (\<forall>v \<in> set s'. uid v = uid u \<longrightarrow>
                passwordResetToken v = None \<and> passwordResetExpires v = None)
          \<and> (\<forall>now' tok' v. findByPasswordResetToken C s' now' tok' = Some v \<longrightarrow> uid v \<noteq> uid u)
          \<and> ((\<forall>v \<in> set s. passwordResetToken v = Some (sha256 C tok) \<longrightarrow> uid v = uid u) \<longrightarrow>
               (\<forall>now' pw' salt'. pw' \<noteq> [] \<longrightarrow>
                  resetPassword C s' now' token_in (Some pw') salt' =
                    (Inl (BadRequestError ''Invalid or expired reset token''), s')))"
proof -
  from resetPassword_success [OF assms] obtain tok pw u where
    h: "token_in = Some tok" "tok \<noteq> []" "findByPasswordResetToken C s now tok = Some u"
    and s': "s' = save s now (u\<lparr>password := bcrypt_hash C pw salt, passwordResetToken := None,
                                  passwordResetExpires := None, refreshTokens := []\<rparr>)"
    by blast
  let ?u = "u\<lparr>password := bcrypt_hash C pw salt, passwordResetToken := None,
               passwordResetExpires := None, refreshTokens := []\<rparr>"
  have tk: "passwordResetToken ?u = None" and id: "uid ?u = uid u" by simp_all
  have a: "\<forall>v \<in> set s'. uid v = uid u \<longrightarrow>
             passwordResetToken v = None \<and> passwordResetExpires v = None"
    unfolding s' by (auto dest!: in_set_save)
  have b: "\<forall>now' tok' v. findByPasswordResetToken C s' now' tok' = Some v \<longrightarrow> uid v \<noteq> uid u"
    unfolding s' using reset_cleared_no_match [OF tk] id by metis
  have c: "(\<forall>v \<in> set s. passwordResetToken v = Some (sha256 C tok) \<longrightarrow> uid v = uid u) \<longrightarrow>
               (\<forall>now' pw' salt'. pw' \<noteq> [] \<longrightarrow>
                  resetPassword C s' now' token_in (Some pw') salt' =
                    (Inl (BadRequestError ''Invalid or expired reset token''), s'))"
  proof (intro impI allI)
    fix now' :: nat and pw' :: string and salt' :: string
    assume "\<forall>v \<in> set s. passwordResetToken v = Some (sha256 C tok) \<longrightarrow> uid v = uid u"
      and pw': "pw' \<noteq> []"
    then have "findByPasswordResetToken C s' now' tok = None"
      unfolding s' using reset_cleared_none [OF tk, of s C tok now now'] by simp
    with h pw' show "resetPassword C s' now' token_in (Some pw') salt' =
                    (Inl (BadRequestError ''Invalid or expired reset token''), s')"
      by (simp add: resetPassword_def)
  qed
  from h a b c show ?thesis by blast
qed

text \<open>
  Claim C7. A successful \<open>verifyEmail\<close> or \<open>resetPassword\<close> clears the stored hash and
  expiry on the document it matched (every document with that \<open>uid\<close>), so no later
  lookup, with any plaintext at any time, returns that user again: the token issued to
  the user is consumed at most once. When no other user's document stores the hash of
  the same plaintext (the plaintext is 32 random bytes), a second consume with it fails
  with \<^verbatim>\<open>BadRequestError\<close>: \<^verbatim>\<open>'Invalid or expired verification token'\<close>, and for the
  reset purpose \<^verbatim>\<open>'Invalid or expired reset token'\<close> (for a non-empty new password).
\<close>

theorem one_time_token_single_use:
  "(verifyEmail C s now token_in = (Inr r, s') \<longrightarrow>
      (\<exists>tok u. token_in = Some tok \<and> findByVerificationToken C s now tok = Some u
          \<and> (\<forall>v \<in> set s'. uid v = uid u \<longrightarrow>
                emailVerificationToken v = None \<and> emailVerificationExpires v = None)
          \<and> (\<forall>now' tok' v. findByVerificationToken C s' now' tok' = Some v \<longrightarrow> uid v \<noteq> uid u)
          \<and> ((\<forall>v \<in> set s. emailVerificationToken v = Some (sha256 C tok) \<longrightarrow> uid v = uid u) \<longrightarrow>
               (\<forall>now'. verifyEmail C s' now' token_in =
                  (Inl (BadRequestError ''Invalid or expired verification token''), s')))))
   \<and> (resetPassword C s now token_in password_in salt = (Inr r, s') \<longrightarrow>
      (\<exists>tok u. token_in = Some tok \<and> findByPasswordResetToken C s now tok = Some u
          \<and> (\<forall>v \<in> set s'. uid v = uid u \<longrightarrow>
                passwordResetToken v = None \<and> passwordResetExpires v = None)
          \<and> (\<forall>now' tok' v. findByPasswordResetToken C s' now' tok' = Some v \<longrightarrow> uid v \<noteq> uid u)
          \<and> ((\<forall>v \<in> set s. passwordResetToken v = Some (sha256 C tok) \<longrightarrow> uid v = uid u) \<longrightarrow>
               (\<forall>now' pw' salt'. pw' \<noteq> [] \<longrightarrow>
                  resetPassword C s' now' token_in (Some pw') salt' =
                    (Inl (BadRequestError ''Invalid or expired reset token''), s')))))"
proof (intro conjI impI)
  assume "verifyEmail C s now token_in = (Inr r, s')"
  then show "\<exists>tok u. token_in = Some tok \<and> findByVerificationToken C s now tok = Some u
          \<and> (\<forall>v \<in> set s'. uid v = uid u \<longrightarrow>
                emailVerificationToken v = None \<and> emailVerificationExpires v = None)
          \<and> (\<forall>now' tok' v. findByVerificationToken C s' now' tok' = Some v \<longrightarrow> uid v \<noteq> uid u)
          \<and> ((\<forall>v \<in> set s. emailVerificationToken v = Some (sha256 C tok) \<longrightarrow> uid v = uid u) \<longrightarrow>
               (\<forall>now'. verifyEmail C s' now' token_in =
                  (Inl (BadRequestError ''Invalid or expired verification token''), s')))"
    by (rule verifyEmail_single_use)
next
  assume "resetPassword C s now token_in password_in salt = (Inr r, s')"
  then show "\<exists>tok u. token_in = Some tok \<and> findByPasswordResetToken C s now tok = Some u
          \<and> (\<forall>v \<in> set s'. uid v = uid u \<longrightarrow>
                passwordResetToken v = None \<and> passwordResetExpires v = None)
          \<and> (\<forall>now' tok' v. findByPasswordResetToken C s' now' tok' = Some v \<longrightarrow> uid v \<noteq> uid u)
          \<and> ((\<forall>v \<in> set s. passwordResetToken v = Some (sha256 C tok) \<longrightarrow> uid v = uid u) \<longrightarrow>
               (\<forall>now' pw' salt'. pw' \<noteq> [] \<longrightarrow>
                  resetPassword C s' now' token_in (Some pw') salt' =
                    (Inl (BadRequestError ''Invalid or expired reset token''), s')))"
    by (rule resetPassword_single_use)
qed

theorem one_time_token_single_use_witness:
  "verifyEmail demo_crypto [alice, bob] 6000 (Some ''v3r1fy'') =
     (Inr (ok_response 200 ''Email verified successfully'' NoData NoCookie), [alice, bob_verified])
   \<and> verifyEmail demo_crypto [alice, bob_verified] 6500 (Some ''v3r1fy'') =
       (Inl (BadRequestError ''Invalid or expired verification token''), [alice, bob_verified])
   \<and> resetPassword demo_crypto [alice, bob] 7000 (Some ''r3s3t'') (Some ''N3wPassw0rd!'') ''s9'' =
       (Inr (ok_response 200 ''Password reset successfully. Please log in with your new password.''
               NoData NoCookie), [alice, bob_reset])
   \<and> resetPassword demo_crypto [alice, bob_reset] 7500 (Some ''r3s3t'') (Some ''An0therPass!'') ''s7'' =
       (Inl (BadRequestError ''Invalid or expired reset token''), [alice, bob_reset])"
proof -
  have fv: "findByVerificationToken demo_crypto [alice, bob] 6000 ''v3r1fy'' = Some bob"
    by (simp add: findByVerificationToken_def verificationTokenMatches_def sample_fields
        demo_crypto_simps)
  have fr: "findByPasswordResetToken demo_crypto [alice, bob] 7000 ''r3s3t'' = Some bob"
    by (simp add: findByPasswordResetToken_def passwordResetTokenMatches_def sample_fields
        demo_crypto_simps)
  have v1: "verifyEmail demo_crypto [alice, bob] 6000 (Some ''v3r1fy'') =
     (Inr (ok_response 200 ''Email verified successfully'' NoData NoCookie), [alice, bob_verified])"
    by (simp add: verifyEmail_def fv save_def sample_fields bob_verified_def)
  have r1: "resetPassword demo_crypto [alice, bob] 7000 (Some ''r3s3t'') (Some ''N3wPassw0rd!'') ''s9'' =
       (Inr (ok_response 200 ''Password reset successfully. Please log in with your new password.''
               NoData NoCookie), [alice, bob_reset])"
    by (simp add: resetPassword_def fr save_password_def demo_crypto_simps Let_def)
      (simp add: save_def sample_fields bob_reset_def)
  have uv: "\<forall>v \<in> set [alice, bob]. emailVerificationToken v = Some (sha256 demo_crypto ''v3r1fy'') \<longrightarrow>
              uid v = uid bob"
    by (simp add: sample_fields demo_crypto_simps)
  have ur: "\<forall>v \<in> set [alice, bob]. passwordResetToken v = Some (sha256 demo_crypto ''r3s3t'') \<longrightarrow>
              uid v = uid bob"
    by (simp add: sample_fields demo_crypto_simps)
  from one_time_token_single_use [of demo_crypto "[alice, bob]" 6000 "Some ''v3r1fy''" _ "[alice, bob_verified]",
      THEN conjunct1, rule_format, OF v1]
  obtain tok u where a: "Some ''v3r1fy'' = Some tok"
    and b: "findByVerificationToken demo_crypto [alice, bob] 6000 tok = Some u"
    and c: "(\<forall>v \<in> set [alice, bob]. emailVerificationToken v = Some (sha256 demo_crypto tok) \<longrightarrow> uid v = uid u) \<longrightarrow>
               (\<forall>now'. verifyEmail demo_crypto [alice, bob_verified] now' (Some ''v3r1fy'') =
                  (Inl (BadRequestError ''Invalid or expired verification token''), [alice, bob_verified]))"
    by (elim exE conjE)
  from a have tok: "tok = ''v3r1fy''" by simp
  from b fv have u: "u = bob" by (simp add: tok)
  from c [unfolded tok u] uv
  have "\<forall>now'. verifyEmail demo_crypto [alice, bob_verified] now' (Some ''v3r1fy'') =
          (Inl (BadRequestError ''Invalid or expired verification token''), [alice, bob_verified])"
    by (rule mp)
  then have v2: "verifyEmail demo_crypto [alice, bob_verified] 6500 (Some ''v3r1fy'') =
       (Inl (BadRequestError ''Invalid or expired verification token''), [alice, bob_verified])"
    by (rule spec)
  from one_time_token_single_use [of demo_crypto "[alice, bob]" 7000 "Some ''r3s3t''" _ "[alice, bob_reset]"
        "Some ''N3wPassw0rd!''" "''s9''",
      THEN conjunct2, rule_format, OF r1]
  obtain tok' u' where a': "Some ''r3s3t'' = Some tok'"
    and b': "findByPasswordResetToken demo_crypto [alice, bob] 7000 tok' = Some u'"
    and c': "(\<forall>v \<in> set [alice, bob]. passwordResetToken v = Some (sha256 demo_crypto tok') \<longrightarrow> uid v = uid u') \<longrightarrow>
               (\<forall>now' pw' salt'. pw' \<noteq> [] \<longrightarrow>
                  resetPassword demo_crypto [alice, bob_reset] now' (Some ''r3s3t'') (Some pw') salt' =
                    (Inl (BadRequestError ''Invalid or expired reset token''), [alice, bob_reset]))"
    by (elim exE conjE)
  from a' have tok': "tok' = ''r3s3t''" by simp
  from b' fr have u': "u' = bob" by (simp add: tok')
  from c' [unfolded tok' u'] ur
  have "\<forall>now' pw' salt'. pw' \<noteq> [] \<longrightarrow>
                  resetPassword demo_crypto [alice, bob_reset] now' (Some ''r3s3t'') (Some pw') salt' =
                    (Inl (BadRequestError ''Invalid or expired reset token''), [alice, bob_reset])"
    by (rule mp)
  then have r2: "resetPassword demo_crypto [alice, bob_reset] 7500 (Some ''r3s3t'') (Some ''An0therPass!'') ''s7'' =
       (Inl (BadRequestError ''Invalid or expired reset token''), [alice, bob_reset])"
    by simp
  from v1 v2 r1 r2 show ?thesis by (intro conjI)
qed

text \<open>
  Claim C8. A lookup by one-time token returns a user only if the stored hash is the hash
  of the presented plaintext and the stored expiry lies strictly after the clock. So when
  every document that stores the hash of the plaintext has an expiry at or before the
  clock, consuming the token fails with \<^verbatim>\<open>BadRequestError\<close> and the store is unchanged,
  whether or not the token was consumed before.
\<close>

theorem one_time_token_expiry:
  "(findByVerificationToken C s now tok = Some u \<longrightarrow>
      emailVerificationToken u = Some (sha256 C tok) \<and>
      (\<exists>e. emailVerificationExpires u = Some e \<and> now < e))
   \<and> (findByPasswordResetToken C s now tok = Some u \<longrightarrow>
      passwordResetToken u = Some (sha256 C tok) \<and>
      (\<exists>e. passwordResetExpires u = Some e \<and> now < e))
   \<and> ((\<forall>v \<in> set s. emailVerificationToken v = Some (sha256 C tok) \<longrightarrow>
          (\<forall>e. emailVerificationExpires v = Some e \<longrightarrow> e \<le> now)) \<longrightarrow>
        verifyEmail C s now (Some tok) =
          (Inl (BadRequestError (if tok = [] then ''Verification token is required''
                                 else ''Invalid or expired verification token'')), s))
   \<and> ((\<forall>v \<in> set s. passwordResetToken v = Some (sha256 C tok) \<longrightarrow>
          (\<forall>e. passwordResetExpires v = Some e \<longrightarrow> e \<le> now)) \<longrightarrow>
        resetPassword C s now (Some tok) (Some pw) salt =
          (Inl (BadRequestError (if tok = [] \<or> pw = [] then ''Token and new password are required''
                                 else ''Invalid or expired reset token'')), s))"
proof (intro conjI impI)
  assume "findByVerificationToken C s now tok = Some u"
  then show "emailVerificationToken u = Some (sha256 C tok)"
    and "\<exists>e. emailVerificationExpires u = Some e \<and> now < e"
    by (auto dest: findByVerificationToken_Some)
next
  assume "findByPasswordResetToken C s now tok = Some u"
  then show "passwordResetToken u = Some (sha256 C tok)"
    and "\<exists>e. passwordResetExpires u = Some e \<and> now < e"
    by (auto dest: findByPasswordResetToken_Some)
next
  assume "\<forall>v \<in> set s. emailVerificationToken v = Some (sha256 C tok) \<longrightarrow>
            (\<forall>e. emailVerificationExpires v = Some e \<longrightarrow> e \<le> now)"
  then have "findByVerificationToken C s now tok = None"
    by (intro findByVerificationToken_None) blast
  then show "verifyEmail C s now (Some tok) =
          (Inl (BadRequestError (if tok = [] then ''Verification token is required''
                                 else ''Invalid or expired verification token'')), s)"
    by (simp add: verifyEmail_def)
next
  assume "\<forall>v \<in> set s. passwordResetToken v = Some (sha256 C tok) \<longrightarrow>
            (\<forall>e. passwordResetExpires v = Some e \<longrightarrow> e \<le> now)"
  then have "findByPasswordResetToken C s now tok = None"
    by (intro findByPasswordResetToken_None) blast
  then show "resetPassword C s now (Some tok) (Some pw) salt =
          (Inl (BadRequestError (if tok = [] \<or> pw = [] then ''Token and new password are required''
                                 else ''Invalid or expired reset token'')), s)"
    by (simp add: resetPassword_def)
qed

theorem one_time_token_expiry_witness:
  "findByVerificationToken demo_crypto [alice, bob] 86402999 ''v3r1fy'' = Some bob
   \<and> verifyEmail demo_crypto [alice, bob] 86403000 (Some ''v3r1fy'') =
       (Inl (BadRequestError ''Invalid or expired verification token''), [alice, bob])
   \<and> findByPasswordResetToken demo_crypto [alice, bob] 602999 ''r3s3t'' = Some bob
   \<and> resetPassword demo_crypto [alice, bob] 603000 (Some ''r3s3t'') (Some ''N3wPassw0rd!'') ''s9'' =
       (Inl (BadRequestError ''Invalid or expired reset token''), [alice, bob])"
proof -
  have v: "\<forall>v \<in> set [alice, bob]. emailVerificationToken v = Some (sha256 demo_crypto ''v3r1fy'') \<longrightarrow>
          (\<forall>e. emailVerificationExpires v = Some e \<longrightarrow> e \<le> (86403000::nat))"
    by (simp add: sample_fields demo_crypto_simps)
  have r: "\<forall>v \<in> set [alice, bob]. passwordResetToken v = Some (sha256 demo_crypto ''r3s3t'') \<longrightarrow>
          (\<forall>e. passwordResetExpires v = Some e \<longrightarrow> e \<le> (603000::nat))"
    by (simp add: sample_fields demo_crypto_simps)
  have f1: "findByVerificationToken demo_crypto [alice, bob] 86402999 ''v3r1fy'' = Some bob"
    by (simp add: findByVerificationToken_def verificationTokenMatches_def sample_fields
        demo_crypto_simps)
  have f2: "findByPasswordResetToken demo_crypto [alice, bob] 602999 ''r3s3t'' = Some bob"
    by (simp add: findByPasswordResetToken_def passwordResetTokenMatches_def sample_fields
        demo_crypto_simps)
  from one_time_token_expiry [of demo_crypto "[alice, bob]" 86403000 "''v3r1fy''" bob]
    one_time_token_expiry [of demo_crypto "[alice, bob]" 603000 "''r3s3t''" bob "''N3wPassw0rd!''" "''s9''"]
    v r f1 f2
  show ?thesis by simp
qed

section \<open>Logout\<close>

text \<open>
  Claim C9. \<open>clearTokens\<close> empties the list of refresh tokens and sets the pending
  email-verification hash and expiry and the pending password-reset hash and expiry to
  undefined; \<open>logout\<close> saves the cleared document. After the logout of an authenticated
  user, every document with the user's \<open>uid\<close> has the five fields cleared, and no lookup
  by verification token or by reset token returns the user, whatever the primitives, the
  plaintext and the clock: the one-time tokens outstanding for the user are unusable.
\<close>

theorem logout_clears_one_time_tokens:
  "refreshTokens (clearTokens u0) = []
   \<and> emailVerificationToken (clearTokens u0) = None
   \<and> emailVerificationExpires (clearTokens u0) = None
   \<and> passwordResetToken (clearTokens u0) = None
   \<and> passwordResetExpires (clearTokens u0) = None
   \<and> logout s now (Some u0) =
        (Inr (ok_response 200 ''Logout successful'' NoData ClearRefreshCookie),
         save s now (clearTokens u0))
   \<and> (authenticate cfg s now authorization = Inr u \<longrightarrow>
        logout_route cfg s now authorization =
          (Inr (ok_response 200 ''Logout successful'' NoData ClearRefreshCookie),
           save s now (clearTokens u))
        \<and> (\<exists>v. findById (save s now (clearTokens u)) (uid u) = Some v)
        \<and> (\<forall>v \<in> set (save s now (clearTokens u)). uid v = uid u \<longrightarrow>
              refreshTokens v = [] \<and>
              emailVerificationToken v = None \<and> emailVerificationExpires v = None \<and>
              passwordResetToken v = None \<and> passwordResetExpires v = None)
        \<and> (\<forall>C now' tok v.
              findByVerificationToken C (save s now (clearTokens u)) now' tok = Some v \<longrightarrow>
              uid v \<noteq> uid u)
        \<and> (\<forall>C now' tok v.
              findByPasswordResetToken C (save s now (clearTokens u)) now' tok = Some v \<longrightarrow>
              uid v \<noteq> uid u))"
proof (intro conjI impI)
  show "logout s now (Some u0) =
        (Inr (ok_response 200 ''Logout successful'' NoData ClearRefreshCookie),
         save s now (clearTokens u0))"
    by (simp add: logout_def)
next
  assume a: "authenticate cfg s now authorization = Inr u"
  then show "logout_route cfg s now authorization =
          (Inr (ok_response 200 ''Logout successful'' NoData ClearRefreshCookie),
           save s now (clearTokens u))"
    by (simp add: logout_route_def logout_def)
  from authenticate_Inr [OF a] obtain d :: JWTPayload where "findById s (userId d) = Some u" by blast
  then have "findById s (uid u) = Some u" using findById_Some_uid [of s "userId d" u] by simp
  then show "\<exists>v. findById (save s now (clearTokens u)) (uid u) = Some v"
    by (simp add: findById_save)
  show "\<forall>v \<in> set (save s now (clearTokens u)). uid v = uid u \<longrightarrow>
              refreshTokens v = [] \<and>
              emailVerificationToken v = None \<and> emailVerificationExpires v = None \<and>
              passwordResetToken v = None \<and> passwordResetExpires v = None"
    by (auto dest!: in_set_save simp: clearTokens_def)
  have id: "uid (clearTokens u) = uid u" by (simp add: clearTokens_def)
  have "emailVerificationToken (clearTokens u) = None" by (simp add: clearTokens_def)
  from verification_cleared_no_match [OF this] id
  show "\<forall>C now' tok v.
              findByVerificationToken C (save s now (clearTokens u)) now' tok = Some v \<longrightarrow>
              uid v \<noteq> uid u"
    by metis
  have "passwordResetToken (clearTokens u) = None" by (simp add: clearTokens_def)
  from reset_cleared_no_match [OF this] id
  show "\<forall>C now' tok v.
              findByPasswordResetToken C (save s now (clearTokens u)) now' tok = Some v \<longrightarrow>
              uid v \<noteq> uid u"
    by metis
qed (simp_all add: clearTokens_def)

theorem logout_clears_one_time_tokens_witness:
  "authenticate demo_config [alice, bob] 6500 (Some (Bearer bob_access)) = Inr bob
   \<and> findByVerificationToken demo_crypto [alice, bob] 7000 ''v3r1fy'' = Some bob
   \<and> logout_route demo_config [alice, bob] 6500 (Some (Bearer bob_access)) =
        (Inr (ok_response 200 ''Logout successful'' NoData ClearRefreshCookie),
         [alice, bob_logged_out])
   \<and> findByVerificationToken demo_crypto [alice, bob_logged_out] 7000 ''v3r1fy'' = None
   \<and> findByPasswordResetToken demo_crypto [alice, bob_logged_out] 7000 ''r3s3t'' = None"
proof -
  have a: "authenticate demo_config [alice, bob] 6500 (Some (Bearer bob_access)) = Inr bob"
    by (simp add: authenticate_def verifyAccessToken_def token_simps demo_config_simps
        clockTimestamp_def findById_def sample_fields)
  have f: "findByVerificationToken demo_crypto [alice, bob] 7000 ''v3r1fy'' = Some bob"
    by (simp add: findByVerificationToken_def verificationTokenMatches_def sample_fields
        demo_crypto_simps)
  have s: "save [alice, bob] 6500 (clearTokens bob) = [alice, bob_logged_out]"
    by (simp add: save_def clearTokens_def sample_fields bob_logged_out_def)
  from logout_clears_one_time_tokens [where s = "[alice, bob]" and now = 6500
      and cfg = demo_config and authorization = "Some (Bearer bob_access)" and u = bob] a
  have l: "logout_route demo_config [alice, bob] 6500 (Some (Bearer bob_access)) =
        (Inr (ok_response 200 ''Logout successful'' NoData ClearRefreshCookie),
         save [alice, bob] 6500 (clearTokens bob))"
    by blast
  have n1: "findByVerificationToken demo_crypto [alice, bob_logged_out] 7000 ''v3r1fy'' = None"
    by (simp add: findByVerificationToken_def verificationTokenMatches_def sample_fields
        bob_logged_out_def)
  have n2: "findByPasswordResetToken demo_crypto [alice, bob_logged_out] 7000 ''r3s3t'' = None"
    by (simp add: findByPasswordResetToken_def passwordResetTokenMatches_def sample_fields
        bob_logged_out_def)
  from a f l [unfolded s] n1 n2 show ?thesis by (intro conjI)
qed

section \<open>Frame of a rotation\<close>

text \<open>
  Claim C10. A successful refresh changes one user: the subject \<open>u\<close> of the presented
  token \<open>t\<close>. The new list of refresh tokens is the old one without the entries equal to
  \<open>t\<close>, followed by the newly minted refresh token; every other member stays, in order.
  Apart from that list and the \<open>updatedAt\<close> stamp the store sets on every save, the
  document is unchanged (email, password hash, role, verification flag and all other
  fields), and so is every document of another user.
\<close>

theorem rotation_frame:
  assumes "refreshToken_handler cfg s now cookie_in header_in = (Inr r, s')"
  shows "\<exists>t d u u'. presentedRefreshToken cookie_in header_in = Some t
           \<and> verifyRefreshToken cfg now t = Inr d
           \<and> findById s (userId d) = Some u
           \<and> t \<in> set (refreshTokens u)
           \<and> u' = u\<lparr>refreshTokens := filter (\<lambda>x. x \<noteq> t) (refreshTokens u)
                                        @ [refreshToken (generateTokenPair cfg now u)],
                     updatedAt := now\<rparr>
           \<and> s' = map (\<lambda>v. if uid v = uid u then u' else v) s
           \<and> findById s' (uid u) = Some u'
           \<and> set (refreshTokens u') =
               (set (refreshTokens u) - {t}) \<union> {refreshToken (generateTokenPair cfg now u)}
           \<and> email u' = email u \<and> password u' = password u \<and> role u' = role u
           \<and> isEmailVerified u' = isEmailVerified u
           \<and> u'\<lparr>refreshTokens := refreshTokens u, updatedAt := updatedAt u\<rparr> = u"
proof -
  from refreshToken_handler_success [OF assms] obtain t d u where
    h: "presentedRefreshToken cookie_in header_in = Some t"
       "verifyRefreshToken cfg now t = Inr d"
       "findById s (userId d) = Some u"
       "t \<in> set (refreshTokens u)"
    and s': "s' = save s now (u\<lparr>refreshTokens :=
                      filter (\<lambda>x. x \<noteq> t) (refreshTokens u) @ [refreshToken (generateTokenPair cfg now u)]\<rparr>)"
    by blast
  define u' where "u' = u\<lparr>refreshTokens := filter (\<lambda>x. x \<noteq> t) (refreshTokens u)
                                        @ [refreshToken (generateTokenPair cfg now u)],
                          updatedAt := now\<rparr>"
  from s' have m: "s' = map (\<lambda>v. if uid v = uid u then u' else v) s"
    by (simp add: save_def u'_def)
  from h(3) have "findById s (uid u) = Some u"
    using findById_Some_uid [of s "userId d" u] by simp
  from findById_save_same [of s "u\<lparr>refreshTokens :=
        filter (\<lambda>x. x \<noteq> t) (refreshTokens u) @ [refreshToken (generateTokenPair cfg now u)]\<rparr>" u now]
    this
  have f: "findById s' (uid u) = Some u'" unfolding s' by (simp add: u'_def)
  have st: "set (refreshTokens u') =
               (set (refreshTokens u) - {t}) \<union> {refreshToken (generateTokenPair cfg now u)}"
    by (auto simp: u'_def)
  have fields: "email u' = email u" "password u' = password u" "role u' = role u"
    "isEmailVerified u' = isEmailVerified u"
    "u'\<lparr>refreshTokens := refreshTokens u, updatedAt := updatedAt u\<rparr> = u"
    by (simp_all add: u'_def)
  show ?thesis
  proof (intro exI conjI)
    show "presentedRefreshToken cookie_in header_in = Some t" by (rule h(1))
    show "verifyRefreshToken cfg now t = Inr d" by (rule h(2))
    show "findById s (userId d) = Some u" by (rule h(3))
    show "t \<in> set (refreshTokens u)" by (rule h(4))
    show "u' = u\<lparr>refreshTokens := filter (\<lambda>x. x \<noteq> t) (refreshTokens u)
                                        @ [refreshToken (generateTokenPair cfg now u)],
                     updatedAt := now\<rparr>" by (rule u'_def)
    show "s' = map (\<lambda>v. if uid v = uid u then u' else v) s" by (rule m)
    show "findById s' (uid u) = Some u'" by (rule f)
    show "set (refreshTokens u') =
               (set (refreshTokens u) - {t}) \<union> {refreshToken (generateTokenPair cfg now u)}"
      by (rule st)
  qed (rule fields)+
qed

theorem rotation_frame_witness:
  "refreshToken_handler demo_config [alice, bob_two_sessions] 6900 (Some bob_token) None =
     (Inr (ok_response 200 ''Token refreshed successfully''
             (TokenData (generateTokenPair demo_config 6900 bob0))
             (SetRefreshCookie (generateRefreshToken demo_config 6900 bob0))),
      [alice, bob_rotated])
   \<and> refreshTokens bob_two_sessions = [bob_token, bob_token2, bob_token]
   \<and> refreshTokens bob_rotated = [bob_token2, generateRefreshToken demo_config 6900 bob0]
   \<and> findById [alice, bob_rotated] ''u2'' = Some bob_rotated
   \<and> bob_rotated\<lparr>refreshTokens := refreshTokens bob_two_sessions,
                   updatedAt := updatedAt bob_two_sessions\<rparr> = bob_two_sessions"
proof -
  have g: "generateRefreshToken demo_config 6900 bob_two_sessions =
           generateRefreshToken demo_config 6900 bob0"
    "generateAccessToken demo_config 6900 bob_two_sessions =
           generateAccessToken demo_config 6900 bob0"
    by (simp_all add: generateRefreshToken_def generateAccessToken_def bob_two_sessions_fields
        sample_fields)
  have ne: "bob_token2 \<noteq> bob_token" by (simp add: bob_token2_simp token_simps)
  have v: "verifyRefreshToken demo_config 6900 bob_token =
             Inr \<lparr>userId = ''u2'', payload_email = ''bob@example.com'', payload_role = USER,
                  payload_type = ''refresh''\<rparr>"
    by (simp add: verifyRefreshToken_def token_simps demo_config_simps clockTimestamp_def)
  have p: "presentedRefreshToken (Some bob_token) None = Some bob_token"
    by (simp add: presentedRefreshToken_def token_simps)
  have tr: "truthy bob_token" by (simp add: token_simps)
  have f: "findById [alice, bob_two_sessions] ''u2'' = Some bob_two_sessions"
    by (simp add: findById_def bob_two_sessions_fields sample_fields)
  have s: "save [alice, bob_two_sessions] 6900
             (bob_two_sessions\<lparr>refreshTokens := [bob_token2, generateRefreshToken demo_config 6900 bob0]\<rparr>)
           = [alice, bob_rotated]"
    by (simp add: save_def bob_two_sessions_def bob_rotated_def sample_fields)
  have run: "refreshToken_handler demo_config [alice, bob_two_sessions] 6900 (Some bob_token) None =
     (Inr (ok_response 200 ''Token refreshed successfully''
             (TokenData (generateTokenPair demo_config 6900 bob0))
             (SetRefreshCookie (generateRefreshToken demo_config 6900 bob0))),
      [alice, bob_rotated])"
    using ne tr
    by (simp add: refreshToken_handler_def p v f bob_two_sessions_fields Let_def
        generateTokenPair_def g s)
  from rotation_frame [OF run] obtain t d u u' where
    t: "presentedRefreshToken (Some bob_token) None = Some t"
    and d: "verifyRefreshToken demo_config 6900 t = Inr d"
    and u: "findById [alice, bob_two_sessions] (userId d) = Some u"
    and u': "u' = u\<lparr>refreshTokens := filter (\<lambda>x. x \<noteq> t) (refreshTokens u)
                                        @ [refreshToken (generateTokenPair demo_config 6900 u)],
                     updatedAt := 6900\<rparr>"
    and fs: "findById [alice, bob_rotated] (uid u) = Some u'"
    and fr: "u'\<lparr>refreshTokens := refreshTokens u, updatedAt := updatedAt u\<rparr> = u"
    by (elim exE conjE)
  from t p have t': "t = bob_token" by simp
  from d v have d': "userId d = ''u2''" by (auto simp: t')
  from u f have u2: "u = bob_two_sessions" by (simp add: d')
  have x: "findById [alice, bob_rotated] ''u2'' = Some u'"
    using fs by (simp add: u2 bob_two_sessions_fields)
  have y: "findById [alice, bob_rotated] ''u2'' = Some bob_rotated"
    by (simp add: findById_def bob_rotated_def sample_fields)
  from x y have u'2: "u' = bob_rotated" by simp
  from fr have frame: "bob_rotated\<lparr>refreshTokens := refreshTokens bob_two_sessions,
                   updatedAt := updatedAt bob_two_sessions\<rparr> = bob_two_sessions"
    by (simp add: u2 u'2)
  have r2: "refreshTokens bob_rotated = [bob_token2, generateRefreshToken demo_config 6900 bob0]"
    by (simp add: bob_rotated_def)
  from run bob_two_sessions_fields(4) r2 y frame show ?thesis by (intro conjI)
qed

end

